theory Spec2Isabelle
  imports Complex_Main "HOL-Library.Word" "HOL-Library.Multiset"
begin

section \<open>The AVG aggregate functions of executor/aggfuncs/func_avg.go\<close>

text \<open>
  The file func_avg.go implements AVG over two numeric domains (types.MyDecimal and
  float64), in an original phase (raw values), a merge phase (pre-aggregated sum and
  count) and, for the original phase, a DISTINCT form. Every function of the file is
  translated below. The Go methods mutate the partial result through a pointer and
  return an error; here each takes the partial result and returns the updated one
  together with the returned error (\<open>None\<close> is Go's \<open>nil\<close>).

  The packages types, expression, chunk and the value sets are not part of the sources
  at hand. Their operations are parameters of the translated functions: a record of the
  decimal operations, a record of the float64 operations, a record of the value-set
  operations. The concrete models of these packages further down follow the
  specification's description of them and are only used to run the functions on
  concrete inputs.
\<close>

subsection \<open>Data\<close>

type_synonym int64 = "64 word"

text \<open>
  The errors a call can come back with. \<open>errors.Trace\<close> only annotates an error with
  a stack position and is the identity here. \<open>IndexOutOfRange\<close> stands for the
  run-time panic of \<open>e.args[i]\<close> on a too short argument list.
\<close>

datatype error = EvaluationError | ArithmeticError | IndexOutOfRange

text \<open>
  expression.Expression: the three evaluation methods used by this file. Go returns
  \<open>(value, isNull, err)\<close>; the callers test \<open>err\<close> first and \<open>isNull\<close> second, so
  \<open>Inl err\<close> is a failed evaluation, \<open>Inr None\<close> a null and \<open>Inr (Some v)\<close> a value.
\<close>

record ('ctx, 'row, 'd, 'f) Expression =
  EvalInt :: "'ctx \<Rightarrow> 'row \<Rightarrow> error + int64 option"
  EvalReal :: "'ctx \<Rightarrow> 'row \<Rightarrow> error + 'f option"
  EvalDecimal :: "'ctx \<Rightarrow> 'row \<Rightarrow> error + 'd option"

record ('ctx, 'row, 'd, 'f) baseAggFunc =
  args :: "('ctx, 'row, 'd, 'f) Expression list"
  ordinal :: nat

text \<open>\<open>e.args[i]\<close>: Go panics when the index is out of range.\<close>

definition args_at ::
  "('ctx, 'row, 'd, 'f) baseAggFunc \<Rightarrow> nat \<Rightarrow> ('ctx, 'row, 'd, 'f) Expression option" where
  "args_at e i = (if i < length (args e) then Some (args e ! i) else None)"

text \<open>
  Package types, as far as func_avg.go uses it. \<open>MyDecimal_zero\<close> is Go's zero value
  \<open>types.MyDecimal{}\<close>, which a freshly allocated partial result holds.
  \<open>DecimalAdd\<close> and \<open>DecimalDiv\<close> write their result into a destination and return an
  error. The callers read the destination only after a nil error, and the result is
  taken to depend on the operands only, so the two are functions into \<open>error + 'd\<close>.
\<close>

record 'd decimalLib =
  MyDecimal_zero :: "'d"
  NewDecFromInt :: "int64 \<Rightarrow> 'd"
  DecimalAdd :: "'d \<Rightarrow> 'd \<Rightarrow> error + 'd"
  DecimalDiv :: "'d \<Rightarrow> 'd \<Rightarrow> nat \<Rightarrow> error + 'd"
  DivFracIncr :: nat

text \<open>
  Go's float64 arithmetic as used by the file: the constant 0, \<open>+\<close>, \<open>/\<close> and the
  conversion \<open>float64(n)\<close> of an int64. None of them can fail or panic.
\<close>

record 'f float64Lib =
  float64_zero :: "'f"
  float64_add :: "'f \<Rightarrow> 'f \<Rightarrow> 'f"
  float64_div :: "'f \<Rightarrow> 'f \<Rightarrow> 'f"
  float64_of_int64 :: "int64 \<Rightarrow> 'f"

text \<open>
  decimalSet and float64Set: \<open>newDecimalSet()\<close> / \<open>newFloat64Set()\<close>, \<open>exist\<close> and
  \<open>insert\<close> (here \<open>insert_val\<close>).
\<close>

record ('s, 'v) valSetLib =
  newSet :: "'s"
  exist :: "'s \<Rightarrow> 'v \<Rightarrow> bool"
  insert_val :: "'s \<Rightarrow> 'v \<Rightarrow> 's"

text \<open>
  Modelled from the spec: chunk.Chunk (package util/chunk is not under the sources).
  The output batch API is \<open>append_null(ordinal)\<close>, \<open>append_decimal(ordinal, value)\<close>
  and \<open>append_float(ordinal, value)\<close>: a chunk maps each column ordinal to the cells
  appended to that column so far.
\<close>

datatype ('d, 'f) cell = CNull | CDecimal 'd | CFloat64 'f

type_synonym ('d, 'f) chunk = "nat \<Rightarrow> ('d, 'f) cell list"

definition AppendNull :: "('d, 'f) chunk \<Rightarrow> nat \<Rightarrow> ('d, 'f) chunk" where
  "AppendNull chk colIdx = chk (colIdx := chk colIdx @ [CNull])"

definition AppendMyDecimal :: "('d, 'f) chunk \<Rightarrow> nat \<Rightarrow> 'd \<Rightarrow> ('d, 'f) chunk" where
  "AppendMyDecimal chk colIdx d = chk (colIdx := chk colIdx @ [CDecimal d])"

definition AppendFloat64 :: "('d, 'f) chunk \<Rightarrow> nat \<Rightarrow> 'f \<Rightarrow> ('d, 'f) chunk" where
  "AppendFloat64 chk colIdx f = chk (colIdx := chk colIdx @ [CFloat64 f])"

subsection \<open>The decimal family\<close>

text \<open>
  The Go structs of both families name their fields \<open>sum\<close>, \<open>count\<close> and \<open>valSet\<close>;
  here the fields carry the family as a suffix. \<open>p.sum = *newSum\<close> copies the decimal,
  so the partial result shares nothing with the scratch value \<open>newSum\<close>.
\<close>

record 'd partialResult4AvgDecimal =
  sum_dec :: "'d"
  count_dec :: int64

definition baseAvgDecimal_AllocPartialResult ::
  "'d decimalLib \<Rightarrow> 'd partialResult4AvgDecimal" where
  "baseAvgDecimal_AllocPartialResult lib =
     \<lparr>sum_dec = MyDecimal_zero lib, count_dec = 0\<rparr>"

definition baseAvgDecimal_ResetPartialResult ::
  "'d decimalLib \<Rightarrow> 'd partialResult4AvgDecimal \<Rightarrow> 'd partialResult4AvgDecimal" where
  "baseAvgDecimal_ResetPartialResult lib p =
     p\<lparr>sum_dec := NewDecFromInt lib 0, count_dec := 0\<rparr>"

definition baseAvgDecimal_AppendFinalResult2Chunk ::
  "'d decimalLib \<Rightarrow> ('ctx, 'row, 'd, 'f) baseAggFunc \<Rightarrow> 'ctx \<Rightarrow>
   'd partialResult4AvgDecimal \<Rightarrow> ('d, 'f) chunk \<Rightarrow> ('d, 'f) chunk \<times> error option" where
  "baseAvgDecimal_AppendFinalResult2Chunk lib e sctx p chk =
     (if count_dec p = 0 then (AppendNull chk (ordinal e), None)
      else
        (let decimalCount = NewDecFromInt lib (count_dec p) in
         case DecimalDiv lib (sum_dec p) decimalCount (DivFracIncr lib) of
           Inl err \<Rightarrow> (chk, Some err)
         | Inr finalResult \<Rightarrow> (AppendMyDecimal chk (ordinal e) finalResult, None)))"

fun avgOriginal4Decimal_UpdatePartialResult ::
  "'d decimalLib \<Rightarrow> ('ctx, 'row, 'd, 'f) baseAggFunc \<Rightarrow> 'ctx \<Rightarrow> 'row list \<Rightarrow>
   'd partialResult4AvgDecimal \<Rightarrow> 'd partialResult4AvgDecimal \<times> error option" where
  "avgOriginal4Decimal_UpdatePartialResult lib e sctx [] p = (p, None)"
| "avgOriginal4Decimal_UpdatePartialResult lib e sctx (row # rowsInGroup) p =
     (case args_at e 0 of
        None \<Rightarrow> (p, Some IndexOutOfRange)
      | Some a0 \<Rightarrow>
         (case EvalDecimal a0 sctx row of
            Inl err \<Rightarrow> (p, Some err)
          | Inr None \<Rightarrow> avgOriginal4Decimal_UpdatePartialResult lib e sctx rowsInGroup p
          | Inr (Some input) \<Rightarrow>
             (case DecimalAdd lib (sum_dec p) input of
                Inl err \<Rightarrow> (p, Some err)
              | Inr newSum \<Rightarrow>
                  avgOriginal4Decimal_UpdatePartialResult lib e sctx rowsInGroup
                    (p\<lparr>sum_dec := newSum, count_dec := count_dec p + 1\<rparr>))))"

fun avgPartial4Decimal_UpdatePartialResult ::
  "'d decimalLib \<Rightarrow> ('ctx, 'row, 'd, 'f) baseAggFunc \<Rightarrow> 'ctx \<Rightarrow> 'row list \<Rightarrow>
   'd partialResult4AvgDecimal \<Rightarrow> 'd partialResult4AvgDecimal \<times> error option" where
  "avgPartial4Decimal_UpdatePartialResult lib e sctx [] p = (p, None)"
| "avgPartial4Decimal_UpdatePartialResult lib e sctx (row # rowsInGroup) p =
     (case args_at e 1 of
        None \<Rightarrow> (p, Some IndexOutOfRange)
      | Some a1 \<Rightarrow>
         (case EvalDecimal a1 sctx row of
            Inl err \<Rightarrow> (p, Some err)
          | Inr None \<Rightarrow> avgPartial4Decimal_UpdatePartialResult lib e sctx rowsInGroup p
          | Inr (Some inputSum) \<Rightarrow>
             (case args_at e 0 of
                None \<Rightarrow> (p, Some IndexOutOfRange)
              | Some a0 \<Rightarrow>
                 (case EvalInt a0 sctx row of
                    Inl err \<Rightarrow> (p, Some err)
                  | Inr None \<Rightarrow>
                      avgPartial4Decimal_UpdatePartialResult lib e sctx rowsInGroup p
                  | Inr (Some inputCount) \<Rightarrow>
                     (case DecimalAdd lib (sum_dec p) inputSum of
                        Inl err \<Rightarrow> (p, Some err)
                      | Inr newSum \<Rightarrow>
                          avgPartial4Decimal_UpdatePartialResult lib e sctx rowsInGroup
                            (p\<lparr>sum_dec := newSum,
                               count_dec := count_dec p + inputCount\<rparr>))))))"

record ('d, 's) partialResult4AvgDistinctDecimal = "'d partialResult4AvgDecimal" +
  valSet_dec :: "'s"

definition avgOriginal4DistinctDecimal_AllocPartialResult ::
  "'d decimalLib \<Rightarrow> ('s, 'd) valSetLib \<Rightarrow> ('d, 's) partialResult4AvgDistinctDecimal" where
  "avgOriginal4DistinctDecimal_AllocPartialResult lib vs =
     \<lparr>sum_dec = MyDecimal_zero lib, count_dec = 0, valSet_dec = newSet vs\<rparr>"

definition avgOriginal4DistinctDecimal_ResetPartialResult ::
  "'d decimalLib \<Rightarrow> ('s, 'd) valSetLib \<Rightarrow> ('d, 's) partialResult4AvgDistinctDecimal \<Rightarrow>
   ('d, 's) partialResult4AvgDistinctDecimal" where
  "avgOriginal4DistinctDecimal_ResetPartialResult lib vs p =
     p\<lparr>sum_dec := NewDecFromInt lib 0, count_dec := 0, valSet_dec := newSet vs\<rparr>"

fun avgOriginal4DistinctDecimal_UpdatePartialResult ::
  "'d decimalLib \<Rightarrow> ('s, 'd) valSetLib \<Rightarrow> ('ctx, 'row, 'd, 'f) baseAggFunc \<Rightarrow> 'ctx \<Rightarrow>
   'row list \<Rightarrow> ('d, 's) partialResult4AvgDistinctDecimal \<Rightarrow>
   ('d, 's) partialResult4AvgDistinctDecimal \<times> error option" where
  "avgOriginal4DistinctDecimal_UpdatePartialResult lib vs e sctx [] p = (p, None)"
| "avgOriginal4DistinctDecimal_UpdatePartialResult lib vs e sctx (row # rowsInGroup) p =
     (case args_at e 0 of
        None \<Rightarrow> (p, Some IndexOutOfRange)
      | Some a0 \<Rightarrow>
         (case EvalDecimal a0 sctx row of
            Inl err \<Rightarrow> (p, Some err)
          | Inr None \<Rightarrow>
              avgOriginal4DistinctDecimal_UpdatePartialResult lib vs e sctx rowsInGroup p
          | Inr (Some input) \<Rightarrow>
             (if exist vs (valSet_dec p) input
              then avgOriginal4DistinctDecimal_UpdatePartialResult lib vs e sctx rowsInGroup p
              else
                (case DecimalAdd lib (sum_dec p) input of
                   Inl err \<Rightarrow> (p, Some err)
                 | Inr newSum \<Rightarrow>
                     avgOriginal4DistinctDecimal_UpdatePartialResult lib vs e sctx rowsInGroup
                       (p\<lparr>sum_dec := newSum, count_dec := count_dec p + 1,
                          valSet_dec := insert_val vs (valSet_dec p) input\<rparr>)))))"

definition avgOriginal4DistinctDecimal_AppendFinalResult2Chunk ::
  "'d decimalLib \<Rightarrow> ('ctx, 'row, 'd, 'f) baseAggFunc \<Rightarrow> 'ctx \<Rightarrow>
   ('d, 's) partialResult4AvgDistinctDecimal \<Rightarrow> ('d, 'f) chunk \<Rightarrow>
   ('d, 'f) chunk \<times> error option" where
  "avgOriginal4DistinctDecimal_AppendFinalResult2Chunk lib e sctx p chk =
     (if count_dec p = 0 then (AppendNull chk (ordinal e), None)
      else
        (let decimalCount = NewDecFromInt lib (count_dec p) in
         case DecimalDiv lib (sum_dec p) decimalCount (DivFracIncr lib) of
           Inl err \<Rightarrow> (chk, Some err)
         | Inr finalResult \<Rightarrow> (AppendMyDecimal chk (ordinal e) finalResult, None)))"

subsection \<open>The float64 family\<close>

record 'f partialResult4AvgFloat64 =
  sum_f64 :: "'f"
  count_f64 :: int64

definition baseAvgFloat64_AllocPartialResult ::
  "'f float64Lib \<Rightarrow> 'f partialResult4AvgFloat64" where
  "baseAvgFloat64_AllocPartialResult fl = \<lparr>sum_f64 = float64_zero fl, count_f64 = 0\<rparr>"

definition baseAvgFloat64_ResetPartialResult ::
  "'f float64Lib \<Rightarrow> 'f partialResult4AvgFloat64 \<Rightarrow> 'f partialResult4AvgFloat64" where
  "baseAvgFloat64_ResetPartialResult fl p = p\<lparr>sum_f64 := float64_zero fl, count_f64 := 0\<rparr>"

definition baseAvgFloat64_AppendFinalResult2Chunk ::
  "'f float64Lib \<Rightarrow> ('ctx, 'row, 'd, 'f) baseAggFunc \<Rightarrow> 'ctx \<Rightarrow>
   'f partialResult4AvgFloat64 \<Rightarrow> ('d, 'f) chunk \<Rightarrow> ('d, 'f) chunk \<times> error option" where
  "baseAvgFloat64_AppendFinalResult2Chunk fl e sctx p chk =
     (if count_f64 p = 0 then (AppendNull chk (ordinal e), None)
      else (AppendFloat64 chk (ordinal e)
              (float64_div fl (sum_f64 p) (float64_of_int64 fl (count_f64 p))), None))"

fun avgOriginal4Float64_UpdatePartialResult ::
  "'f float64Lib \<Rightarrow> ('ctx, 'row, 'd, 'f) baseAggFunc \<Rightarrow> 'ctx \<Rightarrow> 'row list \<Rightarrow>
   'f partialResult4AvgFloat64 \<Rightarrow> 'f partialResult4AvgFloat64 \<times> error option" where
  "avgOriginal4Float64_UpdatePartialResult fl e sctx [] p = (p, None)"
| "avgOriginal4Float64_UpdatePartialResult fl e sctx (row # rowsInGroup) p =
     (case args_at e 0 of
        None \<Rightarrow> (p, Some IndexOutOfRange)
      | Some a0 \<Rightarrow>
         (case EvalReal a0 sctx row of
            Inl err \<Rightarrow> (p, Some err)
          | Inr None \<Rightarrow> avgOriginal4Float64_UpdatePartialResult fl e sctx rowsInGroup p
          | Inr (Some input) \<Rightarrow>
              avgOriginal4Float64_UpdatePartialResult fl e sctx rowsInGroup
                (p\<lparr>sum_f64 := float64_add fl (sum_f64 p) input,
                   count_f64 := count_f64 p + 1\<rparr>)))"

fun avgPartial4Float64_UpdatePartialResult ::
  "'f float64Lib \<Rightarrow> ('ctx, 'row, 'd, 'f) baseAggFunc \<Rightarrow> 'ctx \<Rightarrow> 'row list \<Rightarrow>
   'f partialResult4AvgFloat64 \<Rightarrow> 'f partialResult4AvgFloat64 \<times> error option" where
  "avgPartial4Float64_UpdatePartialResult fl e sctx [] p = (p, None)"
| "avgPartial4Float64_UpdatePartialResult fl e sctx (row # rowsInGroup) p =
     (case args_at e 1 of
        None \<Rightarrow> (p, Some IndexOutOfRange)
      | Some a1 \<Rightarrow>
         (case EvalReal a1 sctx row of
            Inl err \<Rightarrow> (p, Some err)
          | Inr None \<Rightarrow> avgPartial4Float64_UpdatePartialResult fl e sctx rowsInGroup p
          | Inr (Some inputSum) \<Rightarrow>
             (case args_at e 0 of
                None \<Rightarrow> (p, Some IndexOutOfRange)
              | Some a0 \<Rightarrow>
                 (case EvalInt a0 sctx row of
                    Inl err \<Rightarrow> (p, Some err)
                  | Inr None \<Rightarrow>
                      avgPartial4Float64_UpdatePartialResult fl e sctx rowsInGroup p
                  | Inr (Some inputCount) \<Rightarrow>
                      avgPartial4Float64_UpdatePartialResult fl e sctx rowsInGroup
                        (p\<lparr>sum_f64 := float64_add fl (sum_f64 p) inputSum,
                           count_f64 := count_f64 p + inputCount\<rparr>)))))"

record ('f, 's) partialResult4AvgDistinctFloat64 = "'f partialResult4AvgFloat64" +
  valSet_f64 :: "'s"

definition avgOriginal4DistinctFloat64_AllocPartialResult ::
  "'f float64Lib \<Rightarrow> ('s, 'f) valSetLib \<Rightarrow> ('f, 's) partialResult4AvgDistinctFloat64" where
  "avgOriginal4DistinctFloat64_AllocPartialResult fl vs =
     \<lparr>sum_f64 = float64_zero fl, count_f64 = 0, valSet_f64 = newSet vs\<rparr>"

definition avgOriginal4DistinctFloat64_ResetPartialResult ::
  "'f float64Lib \<Rightarrow> ('s, 'f) valSetLib \<Rightarrow> ('f, 's) partialResult4AvgDistinctFloat64 \<Rightarrow>
   ('f, 's) partialResult4AvgDistinctFloat64" where
  "avgOriginal4DistinctFloat64_ResetPartialResult fl vs p =
     p\<lparr>sum_f64 := float64_zero fl, count_f64 := 0, valSet_f64 := newSet vs\<rparr>"

fun avgOriginal4DistinctFloat64_UpdatePartialResult ::
  "'f float64Lib \<Rightarrow> ('s, 'f) valSetLib \<Rightarrow> ('ctx, 'row, 'd, 'f) baseAggFunc \<Rightarrow> 'ctx \<Rightarrow>
   'row list \<Rightarrow> ('f, 's) partialResult4AvgDistinctFloat64 \<Rightarrow>
   ('f, 's) partialResult4AvgDistinctFloat64 \<times> error option" where
  "avgOriginal4DistinctFloat64_UpdatePartialResult fl vs e sctx [] p = (p, None)"
| "avgOriginal4DistinctFloat64_UpdatePartialResult fl vs e sctx (row # rowsInGroup) p =
     (case args_at e 0 of
        None \<Rightarrow> (p, Some IndexOutOfRange)
      | Some a0 \<Rightarrow>
         (case EvalReal a0 sctx row of
            Inl err \<Rightarrow> (p, Some err)
          | Inr None \<Rightarrow>
              avgOriginal4DistinctFloat64_UpdatePartialResult fl vs e sctx rowsInGroup p
          | Inr (Some input) \<Rightarrow>
             (if exist vs (valSet_f64 p) input
              then avgOriginal4DistinctFloat64_UpdatePartialResult fl vs e sctx rowsInGroup p
              else
                avgOriginal4DistinctFloat64_UpdatePartialResult fl vs e sctx rowsInGroup
                  (p\<lparr>sum_f64 := float64_add fl (sum_f64 p) input,
                     count_f64 := count_f64 p + 1,
                     valSet_f64 := insert_val vs (valSet_f64 p) input\<rparr>))))"

definition avgOriginal4DistinctFloat64_AppendFinalResult2Chunk ::
  "'f float64Lib \<Rightarrow> ('ctx, 'row, 'd, 'f) baseAggFunc \<Rightarrow> 'ctx \<Rightarrow>
   ('f, 's) partialResult4AvgDistinctFloat64 \<Rightarrow> ('d, 'f) chunk \<Rightarrow>
   ('d, 'f) chunk \<times> error option" where
  "avgOriginal4DistinctFloat64_AppendFinalResult2Chunk fl e sctx p chk =
     (if count_f64 p = 0 then (AppendNull chk (ordinal e), None)
      else (AppendFloat64 chk (ordinal e)
              (float64_div fl (sum_f64 p) (float64_of_int64 fl (count_f64 p))), None))"

subsection \<open>Notions of the specification\<close>

text \<open>
  The contract the specification gives for the exact-decimal domain, relative to a
  reading \<open>dval\<close> of a decimal as the rational number it denotes: the zero value and
  \<open>NewDecFromInt\<close> denote what they say, and an addition that succeeds is exact.
\<close>

definition exact_decimal :: "'d decimalLib \<Rightarrow> ('d \<Rightarrow> rat) \<Rightarrow> bool" where
  "exact_decimal lib dval \<longleftrightarrow>
     dval (MyDecimal_zero lib) = 0 \<and>
     (\<forall>n. dval (NewDecFromInt lib n) = of_int (sint n)) \<and>
     (\<forall>a b c. DecimalAdd lib a b = Inr c \<longrightarrow> dval c = dval a + dval b)"

text \<open>
  The fractional-increment convention of the division, relative to a reading \<open>fdigits\<close>
  of a decimal's number of fractional digits: a decimal made from an integer has none,
  and a quotient has the operands' fractional digits plus the increment.
\<close>

definition frac_incr_division :: "'d decimalLib \<Rightarrow> ('d \<Rightarrow> nat) \<Rightarrow> bool" where
  "frac_incr_division lib fdigits \<longleftrightarrow>
     (\<forall>n. fdigits (NewDecFromInt lib n) = 0) \<and>
     (\<forall>a b k r. DecimalDiv lib a b k = Inr r \<longrightarrow>
        fdigits r = max (fdigits a) (fdigits b) + k)"

text \<open>The non-null values a batch yields for a decimal or float64 source expression.\<close>

definition decimal_inputs ::
  "('ctx, 'row, 'd, 'f) Expression \<Rightarrow> 'ctx \<Rightarrow> 'row list \<Rightarrow> 'd list" where
  "decimal_inputs a sctx rows =
     List.map_filter
       (\<lambda>row. case EvalDecimal a sctx row of Inr (Some v) \<Rightarrow> Some v | _ \<Rightarrow> None) rows"

definition float64_inputs ::
  "('ctx, 'row, 'd, 'f) Expression \<Rightarrow> 'ctx \<Rightarrow> 'row list \<Rightarrow> 'f list" where
  "float64_inputs a sctx rows =
     List.map_filter
       (\<lambda>row. case EvalReal a sctx row of Inr (Some v) \<Rightarrow> Some v | _ \<Rightarrow> None) rows"

text \<open>
  The pre-aggregated pairs a batch yields in the merge phase: the rows on which both
  the sum expression and the count expression have a value.
\<close>

definition decimal_pairs ::
  "('ctx, 'row, 'd, 'f) Expression \<Rightarrow> ('ctx, 'row, 'd, 'f) Expression \<Rightarrow> 'ctx \<Rightarrow>
   'row list \<Rightarrow> ('d \<times> int64) list" where
  "decimal_pairs a0 a1 sctx rows =
     List.map_filter
       (\<lambda>row. case (EvalDecimal a1 sctx row, EvalInt a0 sctx row) of
                (Inr (Some s), Inr (Some c)) \<Rightarrow> Some (s, c) | _ \<Rightarrow> None) rows"

text \<open>
  The merge-phase update in the words of the specification: for each input row both
  the pre-aggregated sum expression and the pre-aggregated count expression are
  evaluated, and an evaluation that fails ends the update with its error; if either is
  null the row is skipped; otherwise the sum is added into the sum and the count into
  the count.
\<close>

fun merge_update_decimal_as_specified ::
  "'d decimalLib \<Rightarrow> ('ctx, 'row, 'd, 'f) baseAggFunc \<Rightarrow> 'ctx \<Rightarrow> 'row list \<Rightarrow>
   'd partialResult4AvgDecimal \<Rightarrow> 'd partialResult4AvgDecimal \<times> error option" where
  "merge_update_decimal_as_specified lib e sctx [] p = (p, None)"
| "merge_update_decimal_as_specified lib e sctx (row # rows) p =
     (case (args_at e 1, args_at e 0) of
        (Some a1, Some a0) \<Rightarrow>
         (case EvalDecimal a1 sctx row of
            Inl err \<Rightarrow> (p, Some err)
          | Inr inputSum \<Rightarrow>
             (case EvalInt a0 sctx row of
                Inl err \<Rightarrow> (p, Some err)
              | Inr inputCount \<Rightarrow>
                 (case (inputSum, inputCount) of
                    (Some s, Some c) \<Rightarrow>
                     (case DecimalAdd lib (sum_dec p) s of
                        Inl err \<Rightarrow> (p, Some err)
                      | Inr newSum \<Rightarrow>
                          merge_update_decimal_as_specified lib e sctx rows
                            (p\<lparr>sum_dec := newSum, count_dec := count_dec p + c\<rparr>))
                  | _ \<Rightarrow> merge_update_decimal_as_specified lib e sctx rows p)))
      | _ \<Rightarrow> (p, Some IndexOutOfRange))"

fun merge_update_float64_as_specified ::
  "'f float64Lib \<Rightarrow> ('ctx, 'row, 'd, 'f) baseAggFunc \<Rightarrow> 'ctx \<Rightarrow> 'row list \<Rightarrow>
   'f partialResult4AvgFloat64 \<Rightarrow> 'f partialResult4AvgFloat64 \<times> error option" where
  "merge_update_float64_as_specified fl e sctx [] p = (p, None)"
| "merge_update_float64_as_specified fl e sctx (row # rows) p =
     (case (args_at e 1, args_at e 0) of
        (Some a1, Some a0) \<Rightarrow>
         (case EvalReal a1 sctx row of
            Inl err \<Rightarrow> (p, Some err)
          | Inr inputSum \<Rightarrow>
             (case EvalInt a0 sctx row of
                Inl err \<Rightarrow> (p, Some err)
              | Inr inputCount \<Rightarrow>
                 (case (inputSum, inputCount) of
                    (Some s, Some c) \<Rightarrow>
                      merge_update_float64_as_specified fl e sctx rows
                        (p\<lparr>sum_f64 := float64_add fl (sum_f64 p) s,
                           count_f64 := count_f64 p + c\<rparr>)
                  | _ \<Rightarrow> merge_update_float64_as_specified fl e sctx rows p)))
      | _ \<Rightarrow> (p, Some IndexOutOfRange))"

text \<open>Adding a list of decimals to a start value, left to right, up to the first failure.\<close>

fun DecimalAdd_list :: "'d decimalLib \<Rightarrow> 'd \<Rightarrow> 'd list \<Rightarrow> error + 'd" where
  "DecimalAdd_list lib s [] = Inr s"
| "DecimalAdd_list lib s (v # vs) =
     (case DecimalAdd lib s v of Inl err \<Rightarrow> Inl err | Inr s' \<Rightarrow> DecimalAdd_list lib s' vs)"

text \<open>
  Modelled from the spec: the executor that drives an aggregate (not under the
  sources). It feeds the batches of a group one after the other to the update
  operation on the same partial result, and treats the aggregation as failed at the
  first error.
\<close>

fun feed_batches ::
  "('row list \<Rightarrow> 'p \<Rightarrow> 'p \<times> error option) \<Rightarrow> 'row list list \<Rightarrow> 'p \<Rightarrow> 'p \<times> error option" where
  "feed_batches upd [] p = (p, None)"
| "feed_batches upd (batch # batches) p =
     (case upd batch p of
        (p', None) \<Rightarrow> feed_batches upd batches p'
      | (p', Some err) \<Rightarrow> (p', Some err))"

subsection \<open>Concrete instances of the absent packages\<close>

text \<open>
  Modelled from the spec: types.MyDecimal with NewDecFromInt, DecimalAdd and DecimalDiv
  (package types is not under the sources). The exact-decimal domain is fixed-point:
  a decimal is an integer of units in the last place and the number of fractional
  digits. \<open>add\<close> is exact and fails with an overflow error; \<open>divide\<close> extends the
  fractional digits of the operands by the increment. The specification names no
  precision bound and no increment; here they are the parameters \<open>prec\<close> (the number of
  digits a value may have) and \<open>incr\<close>. The quotient's last digit is truncated.
\<close>

datatype MyDecimal = MkDecimal (unscaled: int) (digitsFrac: nat)

definition dec_value :: "MyDecimal \<Rightarrow> rat" where
  "dec_value d = of_int (unscaled d) / 10 ^ digitsFrac d"

definition rescale :: "MyDecimal \<Rightarrow> nat \<Rightarrow> int" where
  "rescale d f = unscaled d * 10 ^ (f - digitsFrac d)"

definition quot_trunc :: "int \<Rightarrow> int \<Rightarrow> int" where
  "quot_trunc a b =
     (if (a < 0) = (b < 0) then \<bar>a\<bar> div \<bar>b\<bar> else - (\<bar>a\<bar> div \<bar>b\<bar>))"

definition spec_DecimalAdd :: "nat \<Rightarrow> MyDecimal \<Rightarrow> MyDecimal \<Rightarrow> error + MyDecimal" where
  "spec_DecimalAdd prec a b =
     (let f = max (digitsFrac a) (digitsFrac b);
          u = rescale a f + rescale b f
      in if \<bar>u\<bar> < 10 ^ prec then Inr (MkDecimal u f) else Inl ArithmeticError)"

definition spec_DecimalDiv ::
  "nat \<Rightarrow> MyDecimal \<Rightarrow> MyDecimal \<Rightarrow> nat \<Rightarrow> error + MyDecimal" where
  "spec_DecimalDiv prec a b k =
     (if unscaled b = 0 then Inl ArithmeticError
      else
        (let f = max (digitsFrac a) (digitsFrac b) + k;
             u = quot_trunc (unscaled a * 10 ^ (digitsFrac b + f - digitsFrac a)) (unscaled b)
         in if \<bar>u\<bar> < 10 ^ prec then Inr (MkDecimal u f) else Inl ArithmeticError))"

definition spec_decimalLib :: "nat \<Rightarrow> nat \<Rightarrow> MyDecimal decimalLib" where
  "spec_decimalLib prec incr =
     \<lparr>MyDecimal_zero = MkDecimal 0 0,
      NewDecFromInt = (\<lambda>n. MkDecimal (sint n) 0),
      DecimalAdd = spec_DecimalAdd prec,
      DecimalDiv = spec_DecimalDiv prec,
      DivFracIncr = incr\<rparr>"

text \<open>
  The same model without a precision bound (arbitrary precision): its addition never
  fails.
\<close>

definition unbounded_decimalLib :: "nat \<Rightarrow> MyDecimal decimalLib" where
  "unbounded_decimalLib incr =
     (spec_decimalLib 0 incr)
       \<lparr>DecimalAdd :=
          (\<lambda>a b. Inr (MkDecimal
             (rescale a (max (digitsFrac a) (digitsFrac b)) +
              rescale b (max (digitsFrac a) (digitsFrac b)))
             (max (digitsFrac a) (digitsFrac b))))\<rparr>"

text \<open>
  Modelled from the spec: decimalSet and float64Set (not under the sources). A value
  set holds the values observed so far; membership is by the domain's numeric
  equality \<open>eq\<close>.
\<close>

definition spec_valSetLib :: "('v \<Rightarrow> 'v \<Rightarrow> bool) \<Rightarrow> ('v list, 'v) valSetLib" where
  "spec_valSetLib eq =
     \<lparr>newSet = [],
      exist = (\<lambda>s v. \<exists>u\<in>set s. eq u v),
      insert_val = (\<lambda>s v. v # s)\<rparr>"

definition decimal_eq :: "MyDecimal \<Rightarrow> MyDecimal \<Rightarrow> bool" where
  "decimal_eq a b \<longleftrightarrow>
     rescale a (max (digitsFrac a) (digitsFrac b)) = rescale b (max (digitsFrac a) (digitsFrac b))"

text \<open>
  An instance of the float64 operations over the rationals, without rounding. It only
  serves to run the float64 functions on concrete inputs; the statements about them
  hold for every instance of the operations.
\<close>

definition rat_float64Lib :: "rat float64Lib" where
  "rat_float64Lib =
     \<lparr>float64_zero = 0, float64_add = (+), float64_div = (/),
      float64_of_int64 = (\<lambda>n. of_int (sint n))\<rparr>"

text \<open>
  Rows and a source expression to run the functions on: a row carries, for each of the
  three evaluation methods, what the evaluation of the expression on that row returns.
\<close>

record test_row =
  as_int :: "error + int64 option"
  as_real :: "error + rat option"
  as_decimal :: "error + MyDecimal option"

definition column :: "(unit, test_row, MyDecimal, rat) Expression" where
  "column = \<lparr>EvalInt = (\<lambda>_. as_int), EvalReal = (\<lambda>_. as_real), EvalDecimal = (\<lambda>_. as_decimal)\<rparr>"

definition avg_of_columns :: "(unit, test_row, MyDecimal, rat) baseAggFunc" where
  "avg_of_columns = \<lparr>args = [column, column], ordinal = 1\<rparr>"

definition decimal_row :: "int \<Rightarrow> test_row" where
  "decimal_row n =
     \<lparr>as_int = Inr None, as_real = Inr None, as_decimal = Inr (Some (MkDecimal n 0))\<rparr>"

definition real_row :: "rat \<Rightarrow> test_row" where
  "real_row x = \<lparr>as_int = Inr None, as_real = Inr (Some x), as_decimal = Inr None\<rparr>"

definition null_row :: "test_row" where
  "null_row = \<lparr>as_int = Inr None, as_real = Inr None, as_decimal = Inr None\<rparr>"

definition failing_row :: "test_row" where
  "failing_row =
     \<lparr>as_int = Inl EvaluationError, as_real = Inl EvaluationError,
      as_decimal = Inl EvaluationError\<rparr>"

definition null_sum_failing_count_row :: "test_row" where
  "null_sum_failing_count_row =
     \<lparr>as_int = Inl EvaluationError, as_real = Inr None, as_decimal = Inr None\<rparr>"

definition failing_count_row :: "int \<Rightarrow> test_row" where
  "failing_count_row s =
     \<lparr>as_int = Inl EvaluationError, as_real = Inr (Some (of_int s)),
      as_decimal = Inr (Some (MkDecimal s 0))\<rparr>"

definition partial_row :: "int \<Rightarrow> int64 \<Rightarrow> test_row" where
  "partial_row s c =
     \<lparr>as_int = Inr (Some c), as_real = Inr (Some (of_int s)),
      as_decimal = Inr (Some (MkDecimal s 0))\<rparr>"

section \<open>Properties\<close>

subsection \<open>The concrete decimal model meets the contract\<close>

lemma dec_value_rescale:
  "digitsFrac d \<le> f \<Longrightarrow> of_int (rescale d f) / 10 ^ f = dec_value d"
proof -
  assume le: "digitsFrac d \<le> f"
  have "(10::rat) ^ f = 10 ^ (f - digitsFrac d) * 10 ^ digitsFrac d"
    using le by (simp flip: power_add)
  then show ?thesis
    by (simp add: rescale_def dec_value_def)
qed

lemma spec_DecimalAdd_exact:
  assumes "spec_DecimalAdd prec a b = Inr c"
  shows "dec_value c = dec_value a + dec_value b"
proof -
  let ?f = "max (digitsFrac a) (digitsFrac b)"
  from assms have c: "c = MkDecimal (rescale a ?f + rescale b ?f) ?f"
    by (simp add: spec_DecimalAdd_def Let_def split: if_splits)
  have "dec_value c = of_int (rescale a ?f) / 10 ^ ?f + of_int (rescale b ?f) / 10 ^ ?f"
    by (simp add: c dec_value_def add_divide_distrib)
  also have "\<dots> = dec_value a + dec_value b"
    by (simp add: dec_value_rescale)
  finally show ?thesis .
qed

lemma spec_decimalLib_exact: "exact_decimal (spec_decimalLib prec incr) dec_value"
  unfolding exact_decimal_def
  by (auto simp: spec_decimalLib_def dec_value_def dest: spec_DecimalAdd_exact)

lemma spec_decimalLib_frac_incr: "frac_incr_division (spec_decimalLib prec incr) digitsFrac"
  unfolding frac_incr_division_def
  by (auto simp: spec_decimalLib_def spec_DecimalDiv_def Let_def split: if_splits)

subsection \<open>Allocation and reset\<close>

lemma baseAvgDecimal_Alloc_Reset:
  "baseAvgDecimal_AllocPartialResult lib = \<lparr>sum_dec = MyDecimal_zero lib, count_dec = 0\<rparr>"
  "baseAvgDecimal_ResetPartialResult lib p = \<lparr>sum_dec = NewDecFromInt lib 0, count_dec = 0\<rparr>"
  by (simp_all add: baseAvgDecimal_AllocPartialResult_def baseAvgDecimal_ResetPartialResult_def)

lemma avgOriginal4DistinctDecimal_Alloc_Reset:
  "avgOriginal4DistinctDecimal_AllocPartialResult lib vs =
     \<lparr>sum_dec = MyDecimal_zero lib, count_dec = 0, valSet_dec = newSet vs\<rparr>"
  "avgOriginal4DistinctDecimal_ResetPartialResult lib vs q =
     \<lparr>sum_dec = NewDecFromInt lib 0, count_dec = 0, valSet_dec = newSet vs\<rparr>"
  by (simp_all add: avgOriginal4DistinctDecimal_AllocPartialResult_def
      avgOriginal4DistinctDecimal_ResetPartialResult_def)

lemma baseAvgFloat64_Alloc_Reset:
  "baseAvgFloat64_AllocPartialResult fl = \<lparr>sum_f64 = float64_zero fl, count_f64 = 0\<rparr>"
  "baseAvgFloat64_ResetPartialResult fl pf = \<lparr>sum_f64 = float64_zero fl, count_f64 = 0\<rparr>"
  by (simp_all add: baseAvgFloat64_AllocPartialResult_def baseAvgFloat64_ResetPartialResult_def)

lemma avgOriginal4DistinctFloat64_Alloc_Reset:
  "avgOriginal4DistinctFloat64_AllocPartialResult fl vf =
     \<lparr>sum_f64 = float64_zero fl, count_f64 = 0, valSet_f64 = newSet vf\<rparr>"
  "avgOriginal4DistinctFloat64_ResetPartialResult fl vf qf =
     \<lparr>sum_f64 = float64_zero fl, count_f64 = 0, valSet_f64 = newSet vf\<rparr>"
  by (simp_all add: avgOriginal4DistinctFloat64_AllocPartialResult_def
      avgOriginal4DistinctFloat64_ResetPartialResult_def)

text \<open>
  Claim C8. Allocation returns the zero state: sum 0, count 0 and, for the distinct
  variants, the empty value set; it has no error path (its result is a partial result,
  not a pair with an error). Reset brings every partial result to one state, whatever
  it held. In the float64 family that state is the allocated one. In the decimal
  family count and value set are those of the allocated state, while the sum is
  \<open>NewDecFromInt(0)\<close> after reset and Go's zero value of MyDecimal after allocation:
  the two states are equal when these two decimals are, and in every decimal library
  in which the zero value and \<open>NewDecFromInt(0)\<close> denote 0 both sums denote 0.
\<close>

theorem alloc_reset_zero_state:
  "baseAvgDecimal_AllocPartialResult lib = \<lparr>sum_dec = MyDecimal_zero lib, count_dec = 0\<rparr> \<and>
   baseAvgDecimal_ResetPartialResult lib p = \<lparr>sum_dec = NewDecFromInt lib 0, count_dec = 0\<rparr> \<and>
   avgOriginal4DistinctDecimal_AllocPartialResult lib vs =
     \<lparr>sum_dec = MyDecimal_zero lib, count_dec = 0, valSet_dec = newSet vs\<rparr> \<and>
   avgOriginal4DistinctDecimal_ResetPartialResult lib vs q =
     \<lparr>sum_dec = NewDecFromInt lib 0, count_dec = 0, valSet_dec = newSet vs\<rparr> \<and>
   (MyDecimal_zero lib = NewDecFromInt lib 0 \<longrightarrow>
      baseAvgDecimal_ResetPartialResult lib p = baseAvgDecimal_AllocPartialResult lib \<and>
      avgOriginal4DistinctDecimal_ResetPartialResult lib vs q =
        avgOriginal4DistinctDecimal_AllocPartialResult lib vs) \<and>
   (exact_decimal lib dval \<longrightarrow>
      dval (sum_dec (baseAvgDecimal_AllocPartialResult lib)) = 0 \<and>
      dval (sum_dec (baseAvgDecimal_ResetPartialResult lib p)) = 0 \<and>
      dval (sum_dec (avgOriginal4DistinctDecimal_AllocPartialResult lib vs)) = 0 \<and>
      dval (sum_dec (avgOriginal4DistinctDecimal_ResetPartialResult lib vs q)) = 0) \<and>
   baseAvgFloat64_AllocPartialResult fl = \<lparr>sum_f64 = float64_zero fl, count_f64 = 0\<rparr> \<and>
   baseAvgFloat64_ResetPartialResult fl pf = baseAvgFloat64_AllocPartialResult fl \<and>
   avgOriginal4DistinctFloat64_AllocPartialResult fl vf =
     \<lparr>sum_f64 = float64_zero fl, count_f64 = 0, valSet_f64 = newSet vf\<rparr> \<and>
   avgOriginal4DistinctFloat64_ResetPartialResult fl vf qf =
     avgOriginal4DistinctFloat64_AllocPartialResult fl vf"
proof -
  have "dval (MyDecimal_zero lib) = 0 \<and> dval (NewDecFromInt lib 0) = 0"
    if "exact_decimal lib dval"
    using that by (simp add: exact_decimal_def)
  then show ?thesis
    by (simp add: baseAvgDecimal_Alloc_Reset avgOriginal4DistinctDecimal_Alloc_Reset
        baseAvgFloat64_Alloc_Reset avgOriginal4DistinctFloat64_Alloc_Reset)
qed

theorem alloc_reset_zero_state_witness:
  "MyDecimal_zero (spec_decimalLib 3 4) = NewDecFromInt (spec_decimalLib 3 4) 0 \<and>
   exact_decimal (spec_decimalLib 3 4) dec_value \<and>
   baseAvgDecimal_ResetPartialResult (spec_decimalLib 3 4)
     \<lparr>sum_dec = MkDecimal 75 1, count_dec = 2\<rparr> =
     baseAvgDecimal_AllocPartialResult (spec_decimalLib 3 4) \<and>
   avgOriginal4DistinctDecimal_ResetPartialResult (spec_decimalLib 3 4)
     (spec_valSetLib decimal_eq)
     \<lparr>sum_dec = MkDecimal 75 1, count_dec = 2,
       valSet_dec = [MkDecimal 5 0, MkDecimal 25 1]\<rparr> =
     avgOriginal4DistinctDecimal_AllocPartialResult (spec_decimalLib 3 4)
       (spec_valSetLib decimal_eq) \<and>
   dec_value (sum_dec (baseAvgDecimal_ResetPartialResult (spec_decimalLib 3 4)
      \<lparr>sum_dec = MkDecimal 75 1, count_dec = 2\<rparr>)) = 0 \<and>
   dec_value (sum_dec (baseAvgDecimal_AllocPartialResult (spec_decimalLib 3 4))) = 0 \<and>
   baseAvgFloat64_ResetPartialResult rat_float64Lib \<lparr>sum_f64 = 15 / 2, count_f64 = 2\<rparr> =
     \<lparr>sum_f64 = 0, count_f64 = 0\<rparr>"
proof -
  let ?lib = "spec_decimalLib 3 4"
  note inst = alloc_reset_zero_state [where lib = ?lib and dval = dec_value
      and p = "\<lparr>sum_dec = MkDecimal 75 1, count_dec = 2\<rparr>" and vs = "spec_valSetLib decimal_eq"
      and q = "\<lparr>sum_dec = MkDecimal 75 1, count_dec = 2,
        valSet_dec = [MkDecimal 5 0, MkDecimal 25 1]\<rparr>"
      and fl = rat_float64Lib and pf = "\<lparr>sum_f64 = 15 / 2, count_f64 = 2\<rparr>"
      and vf = "spec_valSetLib (=)"
      and qf = "\<lparr>sum_f64 = 15 / 2, count_f64 = 2, valSet_f64 = [5, 5 / 2]\<rparr>"]
  have same: "MyDecimal_zero ?lib = NewDecFromInt ?lib 0"
    by (simp add: spec_decimalLib_def)
  note eq = inst [THEN conjunct2, THEN conjunct2, THEN conjunct2, THEN conjunct2,
      THEN conjunct1, THEN mp, OF same]
  note num = inst [THEN conjunct2, THEN conjunct2, THEN conjunct2, THEN conjunct2,
      THEN conjunct2, THEN conjunct1, THEN mp, OF spec_decimalLib_exact]
  note fl = inst [THEN conjunct2, THEN conjunct2, THEN conjunct2, THEN conjunct2,
      THEN conjunct2, THEN conjunct2]
  have flz: "baseAvgFloat64_ResetPartialResult rat_float64Lib
      \<lparr>sum_f64 = 15 / 2, count_f64 = 2\<rparr> = \<lparr>sum_f64 = 0, count_f64 = 0\<rparr>"
    using fl by (simp add: rat_float64Lib_def)
  show ?thesis
    by (intro conjI)
      (fact same spec_decimalLib_exact eq [THEN conjunct1] eq [THEN conjunct2]
        num [THEN conjunct2, THEN conjunct1] num [THEN conjunct1] flz)+
qed

subsection \<open>The update loops\<close>

text \<open>
  Feeding a batch in two pieces is feeding it whole: the second piece starts from the
  state the first one left, and an error in the first piece ends the run there.
\<close>

lemma orig_dec_append:
  "avgOriginal4Decimal_UpdatePartialResult lib e sctx (xs @ ys) p =
     (case avgOriginal4Decimal_UpdatePartialResult lib e sctx xs p of
        (p1, None) \<Rightarrow> avgOriginal4Decimal_UpdatePartialResult lib e sctx ys p1
      | (p1, Some err) \<Rightarrow> (p1, Some err))"
  by (induction xs arbitrary: p) (simp_all split: option.split sum.split)

lemma partial_dec_append:
  "avgPartial4Decimal_UpdatePartialResult lib e sctx (xs @ ys) p =
     (case avgPartial4Decimal_UpdatePartialResult lib e sctx xs p of
        (p1, None) \<Rightarrow> avgPartial4Decimal_UpdatePartialResult lib e sctx ys p1
      | (p1, Some err) \<Rightarrow> (p1, Some err))"
  by (induction xs arbitrary: p) (simp_all split: option.split sum.split)

lemma distinct_dec_append:
  "avgOriginal4DistinctDecimal_UpdatePartialResult lib vs e sctx (xs @ ys) p =
     (case avgOriginal4DistinctDecimal_UpdatePartialResult lib vs e sctx xs p of
        (p1, None) \<Rightarrow> avgOriginal4DistinctDecimal_UpdatePartialResult lib vs e sctx ys p1
      | (p1, Some err) \<Rightarrow> (p1, Some err))"
  by (induction xs arbitrary: p) (simp_all split: option.split sum.split)

lemma orig_f64_append:
  "avgOriginal4Float64_UpdatePartialResult fl e sctx (xs @ ys) p =
     (case avgOriginal4Float64_UpdatePartialResult fl e sctx xs p of
        (p1, None) \<Rightarrow> avgOriginal4Float64_UpdatePartialResult fl e sctx ys p1
      | (p1, Some err) \<Rightarrow> (p1, Some err))"
  by (induction xs arbitrary: p) (simp_all split: option.split sum.split)

lemma partial_f64_append:
  "avgPartial4Float64_UpdatePartialResult fl e sctx (xs @ ys) p =
     (case avgPartial4Float64_UpdatePartialResult fl e sctx xs p of
        (p1, None) \<Rightarrow> avgPartial4Float64_UpdatePartialResult fl e sctx ys p1
      | (p1, Some err) \<Rightarrow> (p1, Some err))"
  by (induction xs arbitrary: p) (simp_all split: option.split sum.split)

lemma distinct_f64_append:
  "avgOriginal4DistinctFloat64_UpdatePartialResult fl vs e sctx (xs @ ys) p =
     (case avgOriginal4DistinctFloat64_UpdatePartialResult fl vs e sctx xs p of
        (p1, None) \<Rightarrow> avgOriginal4DistinctFloat64_UpdatePartialResult fl vs e sctx ys p1
      | (p1, Some err) \<Rightarrow> (p1, Some err))"
  by (induction xs arbitrary: p) (simp_all split: option.split sum.split)

lemma feed_batches_concat:
  assumes app: "\<And>xs ys p. upd (xs @ ys) p =
      (case upd xs p of (p1, None) \<Rightarrow> upd ys p1 | (p1, Some err) \<Rightarrow> (p1, Some err))"
    and nil: "\<And>p. upd [] p = (p, None)"
  shows "feed_batches upd batches p = upd (concat batches) p"
  by (induction batches arbitrary: p) (simp_all add: nil app split: prod.split option.split)

lemma decimal_inputs_simps:
  "decimal_inputs a sctx [] = []"
  "EvalDecimal a sctx row = Inl err \<Longrightarrow>
     decimal_inputs a sctx (row # rows) = decimal_inputs a sctx rows"
  "EvalDecimal a sctx row = Inr None \<Longrightarrow>
     decimal_inputs a sctx (row # rows) = decimal_inputs a sctx rows"
  "EvalDecimal a sctx row = Inr (Some v) \<Longrightarrow>
     decimal_inputs a sctx (row # rows) = v # decimal_inputs a sctx rows"
  by (simp_all add: decimal_inputs_def map_filter_simps)

lemma float64_inputs_simps:
  "float64_inputs a sctx [] = []"
  "EvalReal a sctx row = Inl err \<Longrightarrow>
     float64_inputs a sctx (row # rows) = float64_inputs a sctx rows"
  "EvalReal a sctx row = Inr None \<Longrightarrow>
     float64_inputs a sctx (row # rows) = float64_inputs a sctx rows"
  "EvalReal a sctx row = Inr (Some v) \<Longrightarrow>
     float64_inputs a sctx (row # rows) = v # float64_inputs a sctx rows"
  by (simp_all add: float64_inputs_def map_filter_simps)

lemma orig_dec_result:
  assumes "args_at e 0 = Some a0"
    and "avgOriginal4Decimal_UpdatePartialResult lib e sctx rows p = (p', None)"
  shows "DecimalAdd_list lib (sum_dec p) (decimal_inputs a0 sctx rows) = Inr (sum_dec p') \<and>
         count_dec p' = count_dec p + of_nat (length (decimal_inputs a0 sctx rows))"
  using assms(2)
proof (induction rows arbitrary: p)
  case Nil
  then show ?case by (simp add: decimal_inputs_simps)
next
  case (Cons row rows)
  show ?case
  proof (cases "EvalDecimal a0 sctx row")
    case (Inl err)
    with Cons.prems assms(1) show ?thesis by simp
  next
    case (Inr ov)
    show ?thesis
    proof (cases ov)
      case None
      with Inr Cons.prems assms(1) Cons.IH [of p] show ?thesis
        by (simp add: decimal_inputs_simps)
    next
      case (Some v)
      show ?thesis
      proof (cases "DecimalAdd lib (sum_dec p) v")
        case (Inl err)
        with Some Inr Cons.prems assms(1) show ?thesis by simp
      next
        case (Inr s)
        with Some \<open>EvalDecimal a0 sctx row = Inr ov\<close> Cons.prems assms(1)
          Cons.IH [of "p\<lparr>sum_dec := s, count_dec := count_dec p + 1\<rparr>"]
        show ?thesis
          by (simp add: decimal_inputs_simps)
      qed
    qed
  qed
qed

lemma orig_f64_result:
  assumes "args_at e 0 = Some a0"
    and "avgOriginal4Float64_UpdatePartialResult fl e sctx rows p = (p', None)"
  shows "sum_f64 p' = foldl (float64_add fl) (sum_f64 p) (float64_inputs a0 sctx rows) \<and>
         count_f64 p' = count_f64 p + of_nat (length (float64_inputs a0 sctx rows))"
  using assms(2)
proof (induction rows arbitrary: p)
  case Nil
  then show ?case by (simp add: float64_inputs_simps)
next
  case (Cons row rows)
  show ?case
  proof (cases "EvalReal a0 sctx row")
    case (Inl err)
    with Cons.prems assms(1) show ?thesis by simp
  next
    case (Inr ov)
    show ?thesis
    proof (cases ov)
      case None
      with Inr Cons.prems assms(1) Cons.IH [of p] show ?thesis
        by (simp add: float64_inputs_simps)
    next
      case (Some v)
      with Inr Cons.prems assms(1)
        Cons.IH [of "p\<lparr>sum_f64 := float64_add fl (sum_f64 p) v, count_f64 := count_f64 p + 1\<rparr>"]
      show ?thesis
        by (simp add: float64_inputs_simps)
    qed
  qed
qed

lemma DecimalAdd_list_value:
  assumes "exact_decimal lib dval"
  shows "DecimalAdd_list lib s vs = Inr s' \<Longrightarrow> dval s' = dval s + sum_list (map dval vs)"
proof (induction vs arbitrary: s)
  case Nil
  then show ?case by simp
next
  case (Cons v vs)
  from Cons.prems obtain s1 where a: "DecimalAdd lib s v = Inr s1"
    and r: "DecimalAdd_list lib s1 vs = Inr s'"
    by (auto split: sum.splits)
  from assms a have "dval s1 = dval s + dval v"
    by (simp add: exact_decimal_def)
  with Cons.IH [OF r] show ?case by simp
qed



lemma count_exact:
  fixes c :: int64
  assumes "c = of_nat n" and "n < 2 ^ 63"
  shows "sint c = int n"
proof -
  have "sint (word_of_nat n :: int64) = signed_take_bit 63 (int n)"
    by (simp add: signed_of_nat)
  also have "\<dots> = int n"
  proof (rule signed_take_bit_int_eq_self)
    show "- (2 ^ 63) \<le> int n" by (simp add: order_trans [of _ 0])
    have "int n < int (2 ^ 63)" using assms(2) by (simp only: of_nat_less_iff)
    then show "int n < 2 ^ 63" by simp
  qed
  finally show ?thesis using assms(1) by simp
qed

subsection \<open>Original phase\<close>

lemma orig_dec_null_row:
  assumes "args_at e 0 = Some a0" and "EvalDecimal a0 sctx row = Inr None"
  shows "avgOriginal4Decimal_UpdatePartialResult lib e sctx (row # rows) p =
         avgOriginal4Decimal_UpdatePartialResult lib e sctx rows p"
  using assms by simp

lemma orig_dec_value_row:
  assumes "args_at e 0 = Some a0" and "EvalDecimal a0 sctx row = Inr (Some v)"
    and "DecimalAdd lib (sum_dec p) v = Inr s"
  shows "avgOriginal4Decimal_UpdatePartialResult lib e sctx (row # rows) p =
         avgOriginal4Decimal_UpdatePartialResult lib e sctx rows
           (p\<lparr>sum_dec := s, count_dec := count_dec p + 1\<rparr>)"
  using assms by simp

lemma orig_f64_null_row:
  assumes "args_at e 0 = Some a0" and "EvalReal a0 sctx row = Inr None"
  shows "avgOriginal4Float64_UpdatePartialResult fl e sctx (row # rows) p =
         avgOriginal4Float64_UpdatePartialResult fl e sctx rows p"
  using assms by simp

lemma orig_f64_value_row:
  assumes "args_at e 0 = Some a0" and "EvalReal a0 sctx row = Inr (Some x)"
  shows "avgOriginal4Float64_UpdatePartialResult fl e sctx (row # rows) p =
         avgOriginal4Float64_UpdatePartialResult fl e sctx rows
           (p\<lparr>sum_f64 := float64_add fl (sum_f64 p) x, count_f64 := count_f64 p + 1\<rparr>)"
  using assms by simp

lemma orig_dec_batches:
  assumes a0: "args_at e 0 = Some a0"
    and run: "feed_batches (avgOriginal4Decimal_UpdatePartialResult lib e sctx) batches
                (baseAvgDecimal_AllocPartialResult lib) = (p', None)"
  shows "count_dec p' = of_nat (length (decimal_inputs a0 sctx (concat batches)))"
    and "length (decimal_inputs a0 sctx (concat batches)) < 2 ^ 63 \<Longrightarrow>
         sint (count_dec p') = int (length (decimal_inputs a0 sctx (concat batches)))"
    and "DecimalAdd_list lib (MyDecimal_zero lib) (decimal_inputs a0 sctx (concat batches)) =
         Inr (sum_dec p')"
    and "exact_decimal lib dval \<Longrightarrow>
         dval (sum_dec p') = sum_list (map dval (decimal_inputs a0 sctx (concat batches)))"
proof -
  let ?vs = "decimal_inputs a0 sctx (concat batches)"
  have "avgOriginal4Decimal_UpdatePartialResult lib e sctx (concat batches)
          (baseAvgDecimal_AllocPartialResult lib) = (p', None)"
    using run by (simp add: feed_batches_concat [OF orig_dec_append])
  from orig_dec_result [OF a0 this]
  have s: "DecimalAdd_list lib (MyDecimal_zero lib) ?vs = Inr (sum_dec p')"
    and c: "count_dec p' = of_nat (length ?vs)"
    by (simp_all add: baseAvgDecimal_AllocPartialResult_def)
  show "count_dec p' = of_nat (length ?vs)" by (fact c)
  show "sint (count_dec p') = int (length ?vs)" if "length ?vs < 2 ^ 63"
    using c that by (rule count_exact)
  show "DecimalAdd_list lib (MyDecimal_zero lib) ?vs = Inr (sum_dec p')" by (fact s)
  show "dval (sum_dec p') = sum_list (map dval ?vs)" if ex: "exact_decimal lib dval"
    using DecimalAdd_list_value [OF ex s] ex by (simp add: exact_decimal_def)
qed

lemma orig_f64_batches:
  assumes a0: "args_at e 0 = Some a0"
    and run: "feed_batches (avgOriginal4Float64_UpdatePartialResult fl e sctx) batches
                (baseAvgFloat64_AllocPartialResult fl) = (p', None)"
  shows "count_f64 p' = of_nat (length (float64_inputs a0 sctx (concat batches)))"
    and "length (float64_inputs a0 sctx (concat batches)) < 2 ^ 63 \<Longrightarrow>
         sint (count_f64 p') = int (length (float64_inputs a0 sctx (concat batches)))"
    and "sum_f64 p' =
         foldl (float64_add fl) (float64_zero fl) (float64_inputs a0 sctx (concat batches))"
proof -
  let ?vs = "float64_inputs a0 sctx (concat batches)"
  have "avgOriginal4Float64_UpdatePartialResult fl e sctx (concat batches)
          (baseAvgFloat64_AllocPartialResult fl) = (p', None)"
    using run by (simp add: feed_batches_concat [OF orig_f64_append])
  from orig_f64_result [OF a0 this]
  have s: "sum_f64 p' = foldl (float64_add fl) (float64_zero fl) ?vs"
    and c: "count_f64 p' = of_nat (length ?vs)"
    by (simp_all add: baseAvgFloat64_AllocPartialResult_def)
  show "count_f64 p' = of_nat (length ?vs)" by (fact c)
  show "sint (count_f64 p') = int (length ?vs)" if "length ?vs < 2 ^ 63"
    using c that by (rule count_exact)
  show "sum_f64 p' = foldl (float64_add fl) (float64_zero fl) ?vs" by (fact s)
qed

text \<open>
  Claim C2. Original-phase update, decimal and float64. A row whose source expression
  is null is skipped; a row with a non-null input adds it to the sum and 1 to the
  count. After any sequence of batches fed into a fresh partial result without an
  error, the count is the number of non-null inputs (as an int64; it reads as that
  number while the number is below \<open>2 ^ 63\<close>) and the sum is the result of adding
  exactly those inputs, in order, to the zero of the domain; for a decimal library
  whose successful additions are exact it denotes their sum.
\<close>

theorem original_update_counts_and_sums:
  assumes "args_at e 0 = Some a0"
  shows
    "(EvalDecimal a0 sctx row = Inr None \<longrightarrow>
        avgOriginal4Decimal_UpdatePartialResult lib e sctx (row # rows) p =
        avgOriginal4Decimal_UpdatePartialResult lib e sctx rows p) \<and>
     (EvalDecimal a0 sctx row = Inr (Some v) \<and> DecimalAdd lib (sum_dec p) v = Inr s \<longrightarrow>
        avgOriginal4Decimal_UpdatePartialResult lib e sctx (row # rows) p =
        avgOriginal4Decimal_UpdatePartialResult lib e sctx rows
          (p\<lparr>sum_dec := s, count_dec := count_dec p + 1\<rparr>)) \<and>
     (feed_batches (avgOriginal4Decimal_UpdatePartialResult lib e sctx) batches
        (baseAvgDecimal_AllocPartialResult lib) = (p', None) \<longrightarrow>
        count_dec p' = of_nat (length (decimal_inputs a0 sctx (concat batches))) \<and>
        (length (decimal_inputs a0 sctx (concat batches)) < 2 ^ 63 \<longrightarrow>
           sint (count_dec p') = int (length (decimal_inputs a0 sctx (concat batches)))) \<and>
        DecimalAdd_list lib (MyDecimal_zero lib) (decimal_inputs a0 sctx (concat batches)) =
          Inr (sum_dec p') \<and>
        (exact_decimal lib dval \<longrightarrow>
           dval (sum_dec p') = sum_list (map dval (decimal_inputs a0 sctx (concat batches))))) \<and>
     (EvalReal a0 sctx row = Inr None \<longrightarrow>
        avgOriginal4Float64_UpdatePartialResult fl e sctx (row # rows) pf =
        avgOriginal4Float64_UpdatePartialResult fl e sctx rows pf) \<and>
     (EvalReal a0 sctx row = Inr (Some x) \<longrightarrow>
        avgOriginal4Float64_UpdatePartialResult fl e sctx (row # rows) pf =
        avgOriginal4Float64_UpdatePartialResult fl e sctx rows
          (pf\<lparr>sum_f64 := float64_add fl (sum_f64 pf) x, count_f64 := count_f64 pf + 1\<rparr>)) \<and>
     (feed_batches (avgOriginal4Float64_UpdatePartialResult fl e sctx) batches
        (baseAvgFloat64_AllocPartialResult fl) = (pf', None) \<longrightarrow>
        count_f64 pf' = of_nat (length (float64_inputs a0 sctx (concat batches))) \<and>
        (length (float64_inputs a0 sctx (concat batches)) < 2 ^ 63 \<longrightarrow>
           sint (count_f64 pf') = int (length (float64_inputs a0 sctx (concat batches)))) \<and>
        sum_f64 pf' =
          foldl (float64_add fl) (float64_zero fl) (float64_inputs a0 sctx (concat batches)))"
proof (intro conjI impI)
  show "avgOriginal4Decimal_UpdatePartialResult lib e sctx (row # rows) p =
        avgOriginal4Decimal_UpdatePartialResult lib e sctx rows p"
    if "EvalDecimal a0 sctx row = Inr None"
    using assms that by (rule orig_dec_null_row)
  show "avgOriginal4Decimal_UpdatePartialResult lib e sctx (row # rows) p =
        avgOriginal4Decimal_UpdatePartialResult lib e sctx rows
          (p\<lparr>sum_dec := s, count_dec := count_dec p + 1\<rparr>)"
    if "EvalDecimal a0 sctx row = Inr (Some v) \<and> DecimalAdd lib (sum_dec p) v = Inr s"
    using that orig_dec_value_row [OF assms] by blast
  show "avgOriginal4Float64_UpdatePartialResult fl e sctx (row # rows) pf =
        avgOriginal4Float64_UpdatePartialResult fl e sctx rows pf"
    if "EvalReal a0 sctx row = Inr None"
    using assms that by (rule orig_f64_null_row)
  show "avgOriginal4Float64_UpdatePartialResult fl e sctx (row # rows) pf =
        avgOriginal4Float64_UpdatePartialResult fl e sctx rows
          (pf\<lparr>sum_f64 := float64_add fl (sum_f64 pf) x, count_f64 := count_f64 pf + 1\<rparr>)"
    if "EvalReal a0 sctx row = Inr (Some x)"
    using assms that by (rule orig_f64_value_row)
next
  assume run: "feed_batches (avgOriginal4Decimal_UpdatePartialResult lib e sctx) batches
      (baseAvgDecimal_AllocPartialResult lib) = (p', None)"
  note r = orig_dec_batches [OF assms run]
  show "count_dec p' = of_nat (length (decimal_inputs a0 sctx (concat batches)))"
    by (fact r(1))
  show "sint (count_dec p') = int (length (decimal_inputs a0 sctx (concat batches)))"
    if "length (decimal_inputs a0 sctx (concat batches)) < 2 ^ 63"
    using that by (rule r(2))
  show "DecimalAdd_list lib (MyDecimal_zero lib) (decimal_inputs a0 sctx (concat batches)) =
        Inr (sum_dec p')"
    by (fact r(3))
  show "dval (sum_dec p') = sum_list (map dval (decimal_inputs a0 sctx (concat batches)))"
    if "exact_decimal lib dval"
    using that by (rule r(4))
next
  assume run: "feed_batches (avgOriginal4Float64_UpdatePartialResult fl e sctx) batches
      (baseAvgFloat64_AllocPartialResult fl) = (pf', None)"
  note r = orig_f64_batches [OF assms run]
  show "count_f64 pf' = of_nat (length (float64_inputs a0 sctx (concat batches)))"
    by (fact r(1))
  show "sint (count_f64 pf') = int (length (float64_inputs a0 sctx (concat batches)))"
    if "length (float64_inputs a0 sctx (concat batches)) < 2 ^ 63"
    using that by (rule r(2))
  show "sum_f64 pf' =
        foldl (float64_add fl) (float64_zero fl) (float64_inputs a0 sctx (concat batches))"
    by (fact r(3))
qed

theorem original_update_counts_and_sums_witness:
  "exact_decimal (spec_decimalLib 3 4) dec_value \<and>
   args_at avg_of_columns 0 = Some column \<and>
   EvalDecimal column () null_row = Inr None \<and>
   EvalReal column () null_row = Inr None \<and>
   avgOriginal4Decimal_UpdatePartialResult (spec_decimalLib 3 4) avg_of_columns ()
     [null_row] \<lparr>sum_dec = MkDecimal 7 0, count_dec = 1\<rparr> =
     (\<lparr>sum_dec = MkDecimal 7 0, count_dec = 1\<rparr>, None) \<and>
   avgOriginal4Float64_UpdatePartialResult rat_float64Lib avg_of_columns ()
     [null_row] \<lparr>sum_f64 = 7, count_f64 = 1\<rparr> = (\<lparr>sum_f64 = 7, count_f64 = 1\<rparr>, None) \<and>
   EvalDecimal column () (partial_row 5 1) = Inr (Some (MkDecimal 5 0)) \<and>
   DecimalAdd (spec_decimalLib 3 4) (MkDecimal 7 0) (MkDecimal 5 0) = Inr (MkDecimal 12 0) \<and>
   EvalReal column () (partial_row 5 1) = Inr (Some 5) \<and>
   avgOriginal4Decimal_UpdatePartialResult (spec_decimalLib 3 4) avg_of_columns ()
     [partial_row 5 1] \<lparr>sum_dec = MkDecimal 7 0, count_dec = 1\<rparr> =
     (\<lparr>sum_dec = MkDecimal 12 0, count_dec = 2\<rparr>, None) \<and>
   avgOriginal4Float64_UpdatePartialResult rat_float64Lib avg_of_columns ()
     [partial_row 5 1] \<lparr>sum_f64 = 7, count_f64 = 1\<rparr> = (\<lparr>sum_f64 = 12, count_f64 = 2\<rparr>, None) \<and>
   feed_batches (avgOriginal4Decimal_UpdatePartialResult (spec_decimalLib 3 4) avg_of_columns ())
     [[partial_row 2 1, null_row], [partial_row 4 1, partial_row 6 1]]
     (baseAvgDecimal_AllocPartialResult (spec_decimalLib 3 4)) =
     (\<lparr>sum_dec = MkDecimal 12 0, count_dec = 3\<rparr>, None) \<and>
   decimal_inputs column ()
     (concat [[partial_row 2 1, null_row], [partial_row 4 1, partial_row 6 1]]) =
     [MkDecimal 2 0, MkDecimal 4 0, MkDecimal 6 0] \<and>
   sint (count_dec \<lparr>sum_dec = MkDecimal 12 0, count_dec = 3\<rparr>) = 3 \<and>
   dec_value (MkDecimal 12 0) = 12 \<and>
   feed_batches (avgOriginal4Float64_UpdatePartialResult rat_float64Lib avg_of_columns ())
     [[partial_row 2 1, null_row], [partial_row 4 1, partial_row 6 1]]
     (baseAvgFloat64_AllocPartialResult rat_float64Lib) =
     (\<lparr>sum_f64 = 12, count_f64 = 3\<rparr>, None) \<and>
   float64_inputs column ()
     (concat [[partial_row 2 1, null_row], [partial_row 4 1, partial_row 6 1]]) = [2, 4, 6] \<and>
   sint (count_f64 \<lparr>sum_f64 = 12 :: rat, count_f64 = 3\<rparr>) = 3"
proof -
  let ?lib = "spec_decimalLib 3 4"
  let ?bs = "[[partial_row 2 1, null_row], [partial_row 4 1, partial_row 6 1]]"
  have a: "args_at avg_of_columns 0 = Some column"
    by (simp add: args_at_def avg_of_columns_def)
  have ev: "feed_batches (avgOriginal4Decimal_UpdatePartialResult ?lib avg_of_columns ()) ?bs
      (baseAvgDecimal_AllocPartialResult ?lib) =
      (\<lparr>sum_dec = MkDecimal 12 0, count_dec = 3\<rparr>, None)"
    by (simp add: a column_def partial_row_def null_row_def
        spec_decimalLib_def spec_DecimalAdd_def rescale_def baseAvgDecimal_AllocPartialResult_def)
  have evf: "feed_batches (avgOriginal4Float64_UpdatePartialResult rat_float64Lib avg_of_columns ())
      ?bs (baseAvgFloat64_AllocPartialResult rat_float64Lib) =
      (\<lparr>sum_f64 = 12, count_f64 = 3\<rparr>, None)"
    by (simp add: a column_def partial_row_def null_row_def
        rat_float64Lib_def baseAvgFloat64_AllocPartialResult_def)
  have add: "DecimalAdd ?lib (MkDecimal 7 0) (MkDecimal 5 0) = Inr (MkDecimal 12 0)"
    by (simp add: spec_decimalLib_def spec_DecimalAdd_def rescale_def)
  note inst1 = original_update_counts_and_sums [where lib = ?lib
      and dval = dec_value and e = avg_of_columns and ?a0.0 = column and sctx = "()"
      and row = null_row and rows = "[]" and p = "\<lparr>sum_dec = MkDecimal 7 0, count_dec = 1\<rparr>"
      and v = "MkDecimal 5 0" and s = "MkDecimal 12 0" and batches = ?bs
      and p' = "\<lparr>sum_dec = MkDecimal 12 0, count_dec = 3\<rparr>" and fl = rat_float64Lib
      and pf = "\<lparr>sum_f64 = 7, count_f64 = 1\<rparr>" and x = 5
      and pf' = "\<lparr>sum_f64 = 12, count_f64 = 3\<rparr>", OF a]
  note inst2 = original_update_counts_and_sums [where lib = ?lib
      and dval = dec_value and e = avg_of_columns and ?a0.0 = column and sctx = "()"
      and row = "partial_row 5 1" and rows = "[]"
      and p = "\<lparr>sum_dec = MkDecimal 7 0, count_dec = 1\<rparr>"
      and v = "MkDecimal 5 0" and s = "MkDecimal 12 0" and batches = ?bs
      and p' = "\<lparr>sum_dec = MkDecimal 12 0, count_dec = 3\<rparr>" and fl = rat_float64Lib
      and pf = "\<lparr>sum_f64 = 7, count_f64 = 1\<rparr>" and x = 5
      and pf' = "\<lparr>sum_f64 = 12, count_f64 = 3\<rparr>", OF a]
  have n: "EvalDecimal column () null_row = Inr None" "EvalReal column () null_row = Inr None"
    and v: "EvalDecimal column () (partial_row 5 1) = Inr (Some (MkDecimal 5 0))"
      "EvalReal column () (partial_row 5 1) = Inr (Some 5)"
    by (simp_all add: column_def null_row_def partial_row_def)
  have ins: "decimal_inputs column () (concat ?bs) = [MkDecimal 2 0, MkDecimal 4 0, MkDecimal 6 0]"
    "float64_inputs column () (concat ?bs) = [2, 4, 6]"
    by (simp_all add: decimal_inputs_def float64_inputs_def map_filter_simps column_def
        partial_row_def null_row_def)
  note d1 = inst1 [THEN conjunct1, THEN mp, OF n(1)]
  note d2 = inst2 [THEN conjunct2, THEN conjunct1, THEN mp, OF conjI [OF v(1)]]
  note d3 = inst1 [THEN conjunct2, THEN conjunct2, THEN conjunct1, THEN mp, OF ev]
  note d4 = inst1 [THEN conjunct2, THEN conjunct2, THEN conjunct2, THEN conjunct1, THEN mp,
      OF n(2)]
  note d5 = inst2 [THEN conjunct2, THEN conjunct2, THEN conjunct2, THEN conjunct2,
      THEN conjunct1, THEN mp, OF v(2)]
  note d6 = inst1 [THEN conjunct2, THEN conjunct2, THEN conjunct2, THEN conjunct2,
      THEN conjunct2, THEN mp, OF evf]
  have c1: "avgOriginal4Decimal_UpdatePartialResult ?lib avg_of_columns ()
      [null_row] \<lparr>sum_dec = MkDecimal 7 0, count_dec = 1\<rparr> =
      (\<lparr>sum_dec = MkDecimal 7 0, count_dec = 1\<rparr>, None)"
    using d1 by simp
  have c2: "avgOriginal4Decimal_UpdatePartialResult ?lib avg_of_columns ()
      [partial_row 5 1] \<lparr>sum_dec = MkDecimal 7 0, count_dec = 1\<rparr> =
      (\<lparr>sum_dec = MkDecimal 12 0, count_dec = 2\<rparr>, None)"
    using d2 add by simp
  have c3: "sint (count_dec \<lparr>sum_dec = MkDecimal 12 0, count_dec = 3\<rparr>) = 3"
    "dec_value (MkDecimal 12 0) = 12"
    using d3 spec_decimalLib_exact [of 3 4] by (simp_all add: ins dec_value_def)
  have c4: "avgOriginal4Float64_UpdatePartialResult rat_float64Lib avg_of_columns ()
      [null_row] \<lparr>sum_f64 = 7, count_f64 = 1\<rparr> = (\<lparr>sum_f64 = 7, count_f64 = 1\<rparr>, None)"
    using d4 by simp
  have c5: "avgOriginal4Float64_UpdatePartialResult rat_float64Lib avg_of_columns ()
      [partial_row 5 1] \<lparr>sum_f64 = 7, count_f64 = 1\<rparr> =
      (\<lparr>sum_f64 = 12, count_f64 = 2\<rparr>, None)"
    using d5 by (simp add: rat_float64Lib_def)
  have c6: "sint (count_f64 \<lparr>sum_f64 = 12 :: rat, count_f64 = 3\<rparr>) = 3"
    using d6 by (simp add: ins)
  show ?thesis
    by (intro conjI) (fact spec_decimalLib_exact a n v add ev evf ins c1 c2 c3 c4 c5 c6)+
qed

subsection \<open>Batches of the merge phase\<close>

lemma decimal_pairs_simps:
  "decimal_pairs a0 a1 sctx [] = []"
  "EvalDecimal a1 sctx row = Inr None \<Longrightarrow>
     decimal_pairs a0 a1 sctx (row # rows) = decimal_pairs a0 a1 sctx rows"
  "EvalInt a0 sctx row = Inr None \<Longrightarrow>
     decimal_pairs a0 a1 sctx (row # rows) = decimal_pairs a0 a1 sctx rows"
  "EvalDecimal a1 sctx row = Inr (Some s) \<Longrightarrow> EvalInt a0 sctx row = Inr (Some c) \<Longrightarrow>
     decimal_pairs a0 a1 sctx (row # rows) = (s, c) # decimal_pairs a0 a1 sctx rows"
  by (simp_all add: decimal_pairs_def map_filter_simps split: sum.split option.split)

lemma partial_dec_result:
  assumes a0: "args_at e 0 = Some a0" and a1: "args_at e 1 = Some a1"
    and run: "avgPartial4Decimal_UpdatePartialResult lib e sctx rows p = (p', None)"
  shows "DecimalAdd_list lib (sum_dec p) (map fst (decimal_pairs a0 a1 sctx rows)) =
           Inr (sum_dec p') \<and>
         count_dec p' = count_dec p + sum_list (map snd (decimal_pairs a0 a1 sctx rows))"
  using run
proof (induction rows arbitrary: p)
  case Nil
  then show ?case by (simp add: decimal_pairs_simps)
next
  case (Cons row rows)
  show ?case
  proof (cases "EvalDecimal a1 sctx row")
    case (Inl err)
    with Cons.prems a1 show ?thesis by simp
  next
    case sv: (Inr os)
    show ?thesis
    proof (cases os)
      case None
      with sv Cons.prems a1 Cons.IH [of p] show ?thesis
        by (simp add: decimal_pairs_simps)
    next
      case s: (Some s)
      show ?thesis
      proof (cases "EvalInt a0 sctx row")
        case (Inl err)
        with s sv Cons.prems a0 a1 show ?thesis by simp
      next
        case cv: (Inr oc)
        show ?thesis
        proof (cases oc)
          case None
          with cv s sv Cons.prems a0 a1 Cons.IH [of p] show ?thesis
            by (simp add: decimal_pairs_simps)
        next
          case c: (Some c)
          show ?thesis
          proof (cases "DecimalAdd lib (sum_dec p) s")
            case (Inl err)
            with c cv s sv Cons.prems a0 a1 show ?thesis by simp
          next
            case (Inr s')
            with c cv s sv Cons.prems a0 a1
              Cons.IH [of "p\<lparr>sum_dec := s', count_dec := count_dec p + c\<rparr>"]
            show ?thesis
              by (simp add: decimal_pairs_simps add.assoc)
          qed
        qed
      qed
    qed
  qed
qed

subsection \<open>Mergeability\<close>

lemma mset_map_filter:
  "mset xs = mset ys \<Longrightarrow> mset (List.map_filter f xs) = mset (List.map_filter f ys)"
  by (simp add: map_filter_def)

lemma decimal_inputs_append:
  "decimal_inputs a sctx (xs @ ys) = decimal_inputs a sctx xs @ decimal_inputs a sctx ys"
  by (simp add: decimal_inputs_def map_filter_def)

lemma sum_list_mset_cong:
  fixes f :: "'a \<Rightarrow> rat"
  assumes "mset xs = mset ys"
  shows "sum_list (map f xs) = sum_list (map f ys)"
proof -
  have "sum_list (map f xs) = sum_mset (image_mset f (mset xs))"
    by (simp flip: sum_mset_sum_list)
  also have "\<dots> = sum_mset (image_mset f (mset ys))"
    by (simp add: assms)
  also have "\<dots> = sum_list (map f ys)"
    by (simp flip: sum_mset_sum_list)
  finally show ?thesis .
qed

text \<open>
  The rows the merge phase reads for a list of partitions: each partition's original
  run from a fresh partial result ended without error, and the row carries that run's
  sum and count.
\<close>

lemma partition_counts:
  assumes a0: "args_at e 0 = Some a0"
  shows "list_all2
       (\<lambda>part mrow. \<exists>q.
          avgOriginal4Decimal_UpdatePartialResult lib e sctx part
            (baseAvgDecimal_AllocPartialResult lib) = (q, None) \<and>
          EvalDecimal c1 mctx mrow = Inr (Some (sum_dec q)) \<and>
          EvalInt c0 mctx mrow = Inr (Some (count_dec q))) parts mrows \<Longrightarrow>
     sum_list (map snd (decimal_pairs c0 c1 mctx mrows)) =
       of_nat (length (decimal_inputs a0 sctx (concat parts)))"
proof (induction parts mrows rule: list_all2_induct)
  case Nil
  then show ?case by (simp add: decimal_pairs_simps decimal_inputs_simps)
next
  case (Cons part parts mrow mrows)
  from Cons.hyps(1) obtain q where
    run: "avgOriginal4Decimal_UpdatePartialResult lib e sctx part
            (baseAvgDecimal_AllocPartialResult lib) = (q, None)"
    and s: "EvalDecimal c1 mctx mrow = Inr (Some (sum_dec q))"
    and c: "EvalInt c0 mctx mrow = Inr (Some (count_dec q))"
    by blast
  from orig_dec_result [OF a0 run]
  have n: "count_dec q = of_nat (length (decimal_inputs a0 sctx part))"
    by (simp add: baseAvgDecimal_AllocPartialResult_def)
  from Cons.IH show ?case
    by (simp add: decimal_pairs_simps(4) [OF s c] decimal_inputs_append n)
qed

lemma partition_sums:
  assumes ex: "exact_decimal lib dval" and a0: "args_at e 0 = Some a0"
  shows "list_all2
       (\<lambda>part mrow. \<exists>q.
          avgOriginal4Decimal_UpdatePartialResult lib e sctx part
            (baseAvgDecimal_AllocPartialResult lib) = (q, None) \<and>
          EvalDecimal c1 mctx mrow = Inr (Some (sum_dec q)) \<and>
          EvalInt c0 mctx mrow = Inr (Some (count_dec q))) parts mrows \<Longrightarrow>
     sum_list (map dval (map fst (decimal_pairs c0 c1 mctx mrows))) =
       sum_list (map dval (decimal_inputs a0 sctx (concat parts)))"
proof (induction parts mrows rule: list_all2_induct)
  case Nil
  then show ?case by (simp add: decimal_pairs_simps decimal_inputs_simps)
next
  case (Cons part parts mrow mrows)
  from Cons.hyps(1) obtain q where
    run: "avgOriginal4Decimal_UpdatePartialResult lib e sctx part
            (baseAvgDecimal_AllocPartialResult lib) = (q, None)"
    and s: "EvalDecimal c1 mctx mrow = Inr (Some (sum_dec q))"
    and c: "EvalInt c0 mctx mrow = Inr (Some (count_dec q))"
    by blast
  from orig_dec_result [OF a0 run]
  have l: "DecimalAdd_list lib (MyDecimal_zero lib) (decimal_inputs a0 sctx part) = Inr (sum_dec q)"
    by (simp add: baseAvgDecimal_AllocPartialResult_def)
  from DecimalAdd_list_value [OF ex l] ex
  have v: "dval (sum_dec q) = sum_list (map dval (decimal_inputs a0 sctx part))"
    by (simp add: exact_decimal_def)
  from Cons.IH show ?case
    by (simp add: decimal_pairs_simps(4) [OF s c] decimal_inputs_append v)
qed


lemma unbounded_decimalLib_exact: "exact_decimal (unbounded_decimalLib incr) dec_value"
proof -
  have "dec_value (MkDecimal (rescale a (max (digitsFrac a) (digitsFrac b)) +
            rescale b (max (digitsFrac a) (digitsFrac b))) (max (digitsFrac a) (digitsFrac b))) =
        dec_value a + dec_value b" for a b
  proof -
    let ?f = "max (digitsFrac a) (digitsFrac b)"
    have "dec_value (MkDecimal (rescale a ?f + rescale b ?f) ?f) =
          of_int (rescale a ?f) / 10 ^ ?f + of_int (rescale b ?f) / 10 ^ ?f"
      by (simp add: dec_value_def add_divide_distrib)
    also have "\<dots> = dec_value a + dec_value b"
      by (simp add: dec_value_rescale)
    finally show ?thesis .
  qed
  then show ?thesis
    unfolding exact_decimal_def
    by (auto simp: unbounded_decimalLib_def spec_decimalLib_def dec_value_def)
qed

lemma unbounded_decimalLib_total:
  "\<exists>c. DecimalAdd (unbounded_decimalLib incr) a b = Inr c"
  by (simp add: unbounded_decimalLib_def)

text \<open>With an addition that never fails, a batch without evaluation errors is folded to the end.\<close>

lemma orig_dec_succeeds:
  assumes a0: "args_at e 0 = Some a0"
    and total: "\<And>a b. \<exists>c. DecimalAdd lib a b = Inr c"
  shows "\<forall>row\<in>set rows. \<exists>ov. EvalDecimal a0 sctx row = Inr ov \<Longrightarrow>
         snd (avgOriginal4Decimal_UpdatePartialResult lib e sctx rows p) = None"
proof (induction rows arbitrary: p)
  case Nil
  then show ?case by simp
next
  case (Cons row rows)
  from Cons.prems obtain ov where ev: "EvalDecimal a0 sctx row = Inr ov"
    and rest: "\<forall>row\<in>set rows. \<exists>ov. EvalDecimal a0 sctx row = Inr ov"
    by auto
  show ?case
  proof (cases ov)
    case None
    with ev a0 Cons.IH [OF rest] show ?thesis by simp
  next
    case (Some v)
    from total obtain s where "DecimalAdd lib (sum_dec p) v = Inr s" by blast
    with Some ev a0 Cons.IH [OF rest] show ?thesis by simp
  qed
qed

lemma partial_dec_succeeds:
  assumes a0: "args_at e 0 = Some a0" and a1: "args_at e 1 = Some a1"
    and total: "\<And>a b. \<exists>c. DecimalAdd lib a b = Inr c"
  shows "\<forall>row\<in>set rows. (\<exists>os. EvalDecimal a1 sctx row = Inr os) \<and>
           (\<exists>oc. EvalInt a0 sctx row = Inr oc) \<Longrightarrow>
         snd (avgPartial4Decimal_UpdatePartialResult lib e sctx rows p) = None"
proof (induction rows arbitrary: p)
  case Nil
  then show ?case by simp
next
  case (Cons row rows)
  from Cons.prems obtain os oc where ev: "EvalDecimal a1 sctx row = Inr os"
    "EvalInt a0 sctx row = Inr oc"
    and rest: "\<forall>row\<in>set rows. (\<exists>os. EvalDecimal a1 sctx row = Inr os) \<and>
           (\<exists>oc. EvalInt a0 sctx row = Inr oc)"
    by auto
  show ?case
  proof (cases os)
    case None
    with ev a1 Cons.IH [OF rest] show ?thesis by simp
  next
    case s: (Some s)
    show ?thesis
    proof (cases oc)
      case None
      with s ev a0 a1 Cons.IH [OF rest] show ?thesis by simp
    next
      case (Some c)
      from total obtain s' where "DecimalAdd lib (sum_dec p) s = Inr s'" by blast
      with Some s ev a0 a1 Cons.IH [OF rest] show ?thesis by simp
    qed
  qed
qed


lemma list_all2_and_left:
  "list_all2 P xs ys \<Longrightarrow> list_all Q xs \<Longrightarrow> list_all2 (\<lambda>x y. Q x \<and> P x y) xs ys"
  by (induction xs ys rule: list_all2_induct) simp_all

lemma list_all2_right_all:
  "list_all2 P xs ys \<Longrightarrow> (\<And>x y. P x y \<Longrightarrow> R y) \<Longrightarrow> \<forall>y\<in>set ys. R y"
  by (induction xs ys rule: list_all2_induct) simp_all

text \<open>
  Claim C1. Mergeability, decimal domain (\<open>e\<close> is the original-phase aggregate, \<open>em\<close>
  the merge-phase one). Let the rows of a group be partitioned in any way (\<open>parts\<close>, in
  any order), let the original-phase update run on each partition from a fresh partial
  result, and let the merge-phase update run from a fresh partial result over rows that
  carry the sums and counts of those runs. Whenever these runs and the original-phase
  run over the whole group return no error, the merged count equals the count of the
  whole run and, for every decimal library whose successful additions are exact, the
  merged sum denotes the same number as the sum of the whole run. When the addition
  never fails (arbitrary precision) and every row has a non-null input, none of these
  runs returns an error.
\<close>

theorem mergeability:
  assumes a0: "args_at e 0 = Some a0"
    and c0: "args_at em 0 = Some c0" and c1: "args_at em 1 = Some c1"
    and split: "mset (concat parts) = mset rows"
    and carried: "list_all2
       (\<lambda>part mrow.
          EvalDecimal c1 mctx mrow = Inr (Some (sum_dec (fst
            (avgOriginal4Decimal_UpdatePartialResult lib e sctx part
               (baseAvgDecimal_AllocPartialResult lib))))) \<and>
          EvalInt c0 mctx mrow = Inr (Some (count_dec (fst
            (avgOriginal4Decimal_UpdatePartialResult lib e sctx part
               (baseAvgDecimal_AllocPartialResult lib)))))) parts mrows"
  shows
    "(list_all (\<lambda>part. snd (avgOriginal4Decimal_UpdatePartialResult lib e sctx part
         (baseAvgDecimal_AllocPartialResult lib)) = None) parts \<and>
      avgOriginal4Decimal_UpdatePartialResult lib e sctx rows
        (baseAvgDecimal_AllocPartialResult lib) = (pw, None) \<and>
      avgPartial4Decimal_UpdatePartialResult lib em mctx mrows
        (baseAvgDecimal_AllocPartialResult lib) = (pm, None) \<longrightarrow>
        count_dec pm = count_dec pw \<and>
        (exact_decimal lib dval \<longrightarrow> dval (sum_dec pm) = dval (sum_dec pw))) \<and>
     ((\<forall>a b. \<exists>c. DecimalAdd lib a b = Inr c) \<and>
      (\<forall>row\<in>set rows. \<exists>v. EvalDecimal a0 sctx row = Inr (Some v)) \<longrightarrow>
        list_all (\<lambda>part. snd (avgOriginal4Decimal_UpdatePartialResult lib e sctx part
          (baseAvgDecimal_AllocPartialResult lib)) = None) parts \<and>
        snd (avgOriginal4Decimal_UpdatePartialResult lib e sctx rows
          (baseAvgDecimal_AllocPartialResult lib)) = None \<and>
        snd (avgPartial4Decimal_UpdatePartialResult lib em mctx mrows
          (baseAvgDecimal_AllocPartialResult lib)) = None)"
proof (intro conjI impI; elim conjE)
  let ?alloc = "baseAvgDecimal_AllocPartialResult lib"
  let ?run = "\<lambda>part. avgOriginal4Decimal_UpdatePartialResult lib e sctx part ?alloc"
  assume ok: "list_all (\<lambda>part. snd (?run part) = None) parts"
    and whole: "?run rows = (pw, None)"
    and merged: "avgPartial4Decimal_UpdatePartialResult lib em mctx mrows ?alloc = (pm, None)"
  let ?whole = "decimal_inputs a0 sctx rows"
  let ?split = "decimal_inputs a0 sctx (concat parts)"
  let ?pairs = "decimal_pairs c0 c1 mctx mrows"
  from orig_dec_result [OF a0 whole]
  have wl: "DecimalAdd_list lib (MyDecimal_zero lib) ?whole = Inr (sum_dec pw)"
    and wc: "count_dec pw = of_nat (length ?whole)"
    by (simp_all add: baseAvgDecimal_AllocPartialResult_def)
  from partial_dec_result [OF c0 c1 merged]
  have ml: "DecimalAdd_list lib (MyDecimal_zero lib) (map fst ?pairs) = Inr (sum_dec pm)"
    and mc: "count_dec pm = sum_list (map snd ?pairs)"
    by (simp_all add: baseAvgDecimal_AllocPartialResult_def)
  have runs: "list_all2
       (\<lambda>part mrow. \<exists>q. ?run part = (q, None) \<and>
          EvalDecimal c1 mctx mrow = Inr (Some (sum_dec q)) \<and>
          EvalInt c0 mctx mrow = Inr (Some (count_dec q))) parts mrows"
    using list_all2_and_left [OF carried ok]
    by (rule list_all2_mono) (metis prod.collapse)
  have perm: "mset ?split = mset ?whole"
    unfolding decimal_inputs_def using split by (rule mset_map_filter)
  from perm have "length ?split = length ?whole"
    by (rule mset_eq_length)
  then show "count_dec pm = count_dec pw"
    using mc partition_counts [OF a0 runs] wc by (simp only:)
  show "dval (sum_dec pm) = dval (sum_dec pw)" if ex: "exact_decimal lib dval"
  proof -
    have z: "dval (MyDecimal_zero lib) = 0"
      using ex by (simp add: exact_decimal_def)
    from DecimalAdd_list_value [OF ex wl]
    have ws: "dval (sum_dec pw) = sum_list (map dval ?whole)"
      by (simp add: z)
    from DecimalAdd_list_value [OF ex ml]
    have ms: "dval (sum_dec pm) = sum_list (map dval (map fst ?pairs))"
      by (simp add: z)
    have "dval (sum_dec pm) = sum_list (map dval ?split)"
      using ms partition_sums [OF ex a0 runs] by (simp only:)
    also have "\<dots> = sum_list (map dval ?whole)"
      using perm by (rule sum_list_mset_cong)
    also have "\<dots> = dval (sum_dec pw)"
      using ws by (simp only:)
    finally show ?thesis .
  qed
next
  let ?alloc = "baseAvgDecimal_AllocPartialResult lib"
  assume total: "\<forall>a b. \<exists>c. DecimalAdd lib a b = Inr c"
    and nonnull: "\<forall>row\<in>set rows. \<exists>v. EvalDecimal a0 sctx row = Inr (Some v)"
  from total have tot: "\<exists>c. DecimalAdd lib a b = Inr c" for a b
    by blast
  from nonnull have evals: "\<forall>row\<in>set rows. \<exists>ov. EvalDecimal a0 sctx row = Inr ov"
    by blast
  from split have sets: "set (concat parts) = set rows"
    by (rule mset_eq_setD)
  show "list_all (\<lambda>part. snd (avgOriginal4Decimal_UpdatePartialResult lib e sctx part ?alloc) =
      None) parts"
    unfolding list_all_iff
  proof
    fix part
    assume "part \<in> set parts"
    then have "set part \<subseteq> set rows"
      using sets by auto
    with evals have "\<forall>row\<in>set part. \<exists>ov. EvalDecimal a0 sctx row = Inr ov"
      by blast
    then show "snd (avgOriginal4Decimal_UpdatePartialResult lib e sctx part ?alloc) = None"
      by (rule orig_dec_succeeds [OF a0 tot])
  qed
  show "snd (avgOriginal4Decimal_UpdatePartialResult lib e sctx rows ?alloc) = None"
    using evals by (rule orig_dec_succeeds [OF a0 tot])
  have "\<forall>mrow\<in>set mrows. (\<exists>os. EvalDecimal c1 mctx mrow = Inr os) \<and>
      (\<exists>oc. EvalInt c0 mctx mrow = Inr oc)"
    using carried by (rule list_all2_right_all) simp
  then show "snd (avgPartial4Decimal_UpdatePartialResult lib em mctx mrows ?alloc) = None"
    by (rule partial_dec_succeeds [OF c0 c1 tot])
qed

theorem mergeability_witness:
  "exact_decimal (spec_decimalLib 3 4) dec_value \<and>
   exact_decimal (unbounded_decimalLib 4) dec_value \<and>
   args_at avg_of_columns 0 = Some column \<and>
   args_at avg_of_columns 1 = Some column \<and>
   mset (concat [[decimal_row 6], [decimal_row 2, decimal_row 4]]) =
     mset [decimal_row 2, decimal_row 4, decimal_row 6] \<and>
   avgOriginal4Decimal_UpdatePartialResult (spec_decimalLib 3 4) avg_of_columns ()
     [decimal_row 6] (baseAvgDecimal_AllocPartialResult (spec_decimalLib 3 4)) =
     (\<lparr>sum_dec = MkDecimal 6 0, count_dec = 1\<rparr>, None) \<and>
   avgOriginal4Decimal_UpdatePartialResult (spec_decimalLib 3 4) avg_of_columns ()
     [decimal_row 2, decimal_row 4] (baseAvgDecimal_AllocPartialResult (spec_decimalLib 3 4)) =
     (\<lparr>sum_dec = MkDecimal 6 0, count_dec = 2\<rparr>, None) \<and>
   avgOriginal4Decimal_UpdatePartialResult (spec_decimalLib 3 4) avg_of_columns ()
     [decimal_row 2, decimal_row 4, decimal_row 6]
     (baseAvgDecimal_AllocPartialResult (spec_decimalLib 3 4)) =
     (\<lparr>sum_dec = MkDecimal 12 0, count_dec = 3\<rparr>, None) \<and>
   avgPartial4Decimal_UpdatePartialResult (spec_decimalLib 3 4) avg_of_columns ()
     [partial_row 6 1, partial_row 6 2]
     (baseAvgDecimal_AllocPartialResult (spec_decimalLib 3 4)) =
     (\<lparr>sum_dec = MkDecimal 12 0, count_dec = 3\<rparr>, None) \<and>
   dec_value (sum_dec \<lparr>sum_dec = MkDecimal 12 0, count_dec = 3 :: int64\<rparr>) = 12 \<and>
   (\<forall>a b. \<exists>c. DecimalAdd (unbounded_decimalLib 4) a b = Inr c) \<and>
   list_all (\<lambda>row. \<exists>v. EvalDecimal column () row = Inr (Some v))
     [decimal_row 2, decimal_row 4, decimal_row 6] \<and>
   snd (avgOriginal4Decimal_UpdatePartialResult (unbounded_decimalLib 4) avg_of_columns ()
     [decimal_row 2, decimal_row 4, decimal_row 6]
     (baseAvgDecimal_AllocPartialResult (unbounded_decimalLib 4))) = None \<and>
   snd (avgPartial4Decimal_UpdatePartialResult (unbounded_decimalLib 4) avg_of_columns ()
     [partial_row 6 1, partial_row 6 2]
     (baseAvgDecimal_AllocPartialResult (unbounded_decimalLib 4))) = None"
proof -
  let ?lib = "spec_decimalLib 3 4"
  let ?ulib = "unbounded_decimalLib 4"
  let ?alloc = "baseAvgDecimal_AllocPartialResult ?lib"
  let ?ualloc = "baseAvgDecimal_AllocPartialResult ?ulib"
  let ?rows = "[decimal_row 2, decimal_row 4, decimal_row 6]"
  let ?parts = "[[decimal_row 6], [decimal_row 2, decimal_row 4]]"
  let ?mrows = "[partial_row 6 1, partial_row 6 2]"
  note defs = args_at_def avg_of_columns_def column_def decimal_row_def partial_row_def
    spec_decimalLib_def spec_DecimalAdd_def rescale_def baseAvgDecimal_AllocPartialResult_def
    unbounded_decimalLib_def
  have a0: "args_at avg_of_columns 0 = Some column"
    and a1: "args_at avg_of_columns 1 = Some column"
    by (simp_all add: args_at_def avg_of_columns_def)
  have split: "mset (concat ?parts) = mset ?rows"
    by simp
  have p1: "avgOriginal4Decimal_UpdatePartialResult ?lib avg_of_columns ()
      [decimal_row 6] ?alloc = (\<lparr>sum_dec = MkDecimal 6 0, count_dec = 1\<rparr>, None)"
    and p2: "avgOriginal4Decimal_UpdatePartialResult ?lib avg_of_columns ()
      [decimal_row 2, decimal_row 4] ?alloc = (\<lparr>sum_dec = MkDecimal 6 0, count_dec = 2\<rparr>, None)"
    and whole: "avgOriginal4Decimal_UpdatePartialResult ?lib avg_of_columns () ?rows ?alloc =
      (\<lparr>sum_dec = MkDecimal 12 0, count_dec = 3\<rparr>, None)"
    and merged: "avgPartial4Decimal_UpdatePartialResult ?lib avg_of_columns () ?mrows ?alloc =
      (\<lparr>sum_dec = MkDecimal 12 0, count_dec = 3\<rparr>, None)"
    by (simp_all add: defs)
  have u1: "avgOriginal4Decimal_UpdatePartialResult ?ulib avg_of_columns ()
      [decimal_row 6] ?ualloc = (\<lparr>sum_dec = MkDecimal 6 0, count_dec = 1\<rparr>, None)"
    and u2: "avgOriginal4Decimal_UpdatePartialResult ?ulib avg_of_columns ()
      [decimal_row 2, decimal_row 4] ?ualloc =
      (\<lparr>sum_dec = MkDecimal 6 0, count_dec = 2\<rparr>, None)"
    by (simp_all add: defs)
  have cols: "EvalDecimal column () (partial_row 6 1) = Inr (Some (MkDecimal 6 0))"
    "EvalInt column () (partial_row 6 1) = Inr (Some 1)"
    "EvalDecimal column () (partial_row 6 2) = Inr (Some (MkDecimal 6 0))"
    "EvalInt column () (partial_row 6 2) = Inr (Some 2)"
    by (simp_all add: column_def partial_row_def)
  have carried: "list_all2
       (\<lambda>part mrow.
          EvalDecimal column () mrow = Inr (Some (sum_dec (fst
            (avgOriginal4Decimal_UpdatePartialResult ?lib avg_of_columns () part ?alloc)))) \<and>
          EvalInt column () mrow = Inr (Some (count_dec (fst
            (avgOriginal4Decimal_UpdatePartialResult ?lib avg_of_columns () part ?alloc)))))
       ?parts ?mrows"
    unfolding list_all2_Cons list_all2_Nil p1 p2 cols by simp
  have ucarried: "list_all2
       (\<lambda>part mrow.
          EvalDecimal column () mrow = Inr (Some (sum_dec (fst
            (avgOriginal4Decimal_UpdatePartialResult ?ulib avg_of_columns () part ?ualloc)))) \<and>
          EvalInt column () mrow = Inr (Some (count_dec (fst
            (avgOriginal4Decimal_UpdatePartialResult ?ulib avg_of_columns () part ?ualloc)))))
       ?parts ?mrows"
    unfolding list_all2_Cons list_all2_Nil u1 u2 cols by simp
  have ok: "list_all (\<lambda>part. snd (avgOriginal4Decimal_UpdatePartialResult ?lib avg_of_columns ()
      part ?alloc) = None) ?parts"
    unfolding list.pred_inject p1 p2 by simp
  have total: "\<forall>a b. \<exists>c. DecimalAdd ?ulib a b = Inr c"
    using unbounded_decimalLib_total by blast
  have nonnull: "list_all (\<lambda>row. \<exists>v. EvalDecimal column () row = Inr (Some v)) ?rows"
    by (simp add: column_def decimal_row_def)
  then have nonnull': "\<forall>row\<in>set ?rows. \<exists>v. EvalDecimal column () row = Inr (Some v)"
    by (simp only: list_all_iff)
  note bounded = mergeability [OF a0 a0 a1 split carried,
      where pw = "\<lparr>sum_dec = MkDecimal 12 0, count_dec = 3\<rparr>"
        and pm = "\<lparr>sum_dec = MkDecimal 12 0, count_dec = 3\<rparr>" and dval = dec_value,
      THEN conjunct1, THEN mp, OF conjI [OF ok conjI [OF whole merged]], THEN conjunct2,
      THEN mp, OF spec_decimalLib_exact]
  note unbounded = mergeability [OF a0 a0 a1 split ucarried,
      where pw = "\<lparr>sum_dec = MkDecimal 12 0, count_dec = 3\<rparr>"
        and pm = "\<lparr>sum_dec = MkDecimal 12 0, count_dec = 3\<rparr>" and dval = dec_value,
      THEN conjunct2, THEN mp, OF conjI [OF total nonnull']]
  have val: "dec_value (sum_dec \<lparr>sum_dec = MkDecimal 12 0, count_dec = 3 :: int64\<rparr>) = 12"
    using bounded by (simp add: dec_value_def)
  show ?thesis
    by (intro conjI)
      (fact spec_decimalLib_exact unbounded_decimalLib_exact a0 a1 split p1 p2 whole merged
        val total nonnull unbounded [THEN conjunct2, THEN conjunct1]
        unbounded [THEN conjunct2, THEN conjunct2])+
qed

subsection \<open>Rows of the merge phase\<close>

text \<open>
  The merge-phase loops evaluate the sum expression first and look at the count
  expression only on rows whose sum expression has a value. They agree with the
  update as the specification words it on every batch in which no row with a null sum
  has a count expression that fails.
\<close>

lemma partial_dec_as_specified:
  assumes "args_at e 0 = Some a0" and "args_at e 1 = Some a1"
  shows "list_all (\<lambda>r. EvalDecimal a1 sctx r = Inr None \<longrightarrow>
           (\<exists>cv. EvalInt a0 sctx r = Inr cv)) rows \<Longrightarrow>
         avgPartial4Decimal_UpdatePartialResult lib e sctx rows p =
         merge_update_decimal_as_specified lib e sctx rows p"
proof (induction rows arbitrary: p)
  case Nil
  show ?case by simp
next
  have a1: "args_at e (Suc 0) = Some a1"
    using assms(2) by simp
  case (Cons row rows)
  from Cons.prems have tl: "list_all (\<lambda>r. EvalDecimal a1 sctx r = Inr None \<longrightarrow>
      (\<exists>cv. EvalInt a0 sctx r = Inr cv)) rows"
    and hd: "EvalDecimal a1 sctx row = Inr None \<longrightarrow> (\<exists>cv. EvalInt a0 sctx row = Inr cv)"
    by simp_all
  note ih = Cons.IH [OF tl]
  show ?case
    using hd by (auto simp add: assms(1) a1 ih split: sum.split option.split)
qed

lemma partial_f64_as_specified:
  assumes "args_at e 0 = Some a0" and "args_at e 1 = Some a1"
  shows "list_all (\<lambda>r. EvalReal a1 sctx r = Inr None \<longrightarrow>
           (\<exists>cv. EvalInt a0 sctx r = Inr cv)) rows \<Longrightarrow>
         avgPartial4Float64_UpdatePartialResult fl e sctx rows p =
         merge_update_float64_as_specified fl e sctx rows p"
proof (induction rows arbitrary: p)
  case Nil
  show ?case by simp
next
  have a1: "args_at e (Suc 0) = Some a1"
    using assms(2) by simp
  case (Cons row rows)
  from Cons.prems have tl: "list_all (\<lambda>r. EvalReal a1 sctx r = Inr None \<longrightarrow>
      (\<exists>cv. EvalInt a0 sctx r = Inr cv)) rows"
    and hd: "EvalReal a1 sctx row = Inr None \<longrightarrow> (\<exists>cv. EvalInt a0 sctx row = Inr cv)"
    by simp_all
  note ih = Cons.IH [OF tl]
  show ?case
    using hd by (auto simp add: assms(1) a1 ih split: sum.split option.split)
qed

text \<open>
  Claim C5 as worded has both expressions evaluated for every input row. The loops do
  not: on a row whose sum expression is null they continue with the next row before the
  count expression is evaluated. On such a row with a count expression whose
  evaluation fails, the update as the specification words it ends with the evaluation
  error, and the loops of the source skip the row and return no error.
\<close>

theorem merge_update_skips_count_evaluation:
  "EvalDecimal column () null_sum_failing_count_row = Inr None \<and>
   EvalReal column () null_sum_failing_count_row = Inr None \<and>
   EvalInt column () null_sum_failing_count_row = Inl EvaluationError \<and>
   merge_update_decimal_as_specified (spec_decimalLib 3 4) avg_of_columns ()
     [null_sum_failing_count_row] \<lparr>sum_dec = MkDecimal 20 0, count_dec = 3\<rparr> =
     (\<lparr>sum_dec = MkDecimal 20 0, count_dec = 3\<rparr>, Some EvaluationError) \<and>
   avgPartial4Decimal_UpdatePartialResult (spec_decimalLib 3 4) avg_of_columns ()
     [null_sum_failing_count_row] \<lparr>sum_dec = MkDecimal 20 0, count_dec = 3\<rparr> =
     (\<lparr>sum_dec = MkDecimal 20 0, count_dec = 3\<rparr>, None) \<and>
   merge_update_float64_as_specified rat_float64Lib avg_of_columns ()
     [null_sum_failing_count_row] \<lparr>sum_f64 = 20, count_f64 = 3\<rparr> =
     (\<lparr>sum_f64 = 20, count_f64 = 3\<rparr>, Some EvaluationError) \<and>
   avgPartial4Float64_UpdatePartialResult rat_float64Lib avg_of_columns ()
     [null_sum_failing_count_row] \<lparr>sum_f64 = 20, count_f64 = 3\<rparr> =
     (\<lparr>sum_f64 = 20, count_f64 = 3\<rparr>, None)"
  by (simp add: args_at_def avg_of_columns_def column_def null_sum_failing_count_row_def)

text \<open>
  Claim C5, amended. Merge-phase update, decimal and float64. For every input row the
  sum expression is evaluated first. If it is null, the row is skipped and the count
  expression is not looked at. If it has a value, the count expression is evaluated,
  and if that is null the row is skipped. A skipped row does not change the partial
  result. If both have a value, the pre-aggregated sum is added to the sum (DecimalAdd
  for decimals, whose failure ends the update; float64 addition for floats) and the
  pre-aggregated count is added to the count. On every batch in which no row with a
  null sum has a failing count expression, this is the update as the specification
  words it.
\<close>

theorem merge_update_row:
  assumes "args_at e 0 = Some a0" and "args_at e 1 = Some a1"
  shows
    "(EvalDecimal a1 sctx row = Inr None \<longrightarrow>
        avgPartial4Decimal_UpdatePartialResult lib e sctx (row # rows) p =
        avgPartial4Decimal_UpdatePartialResult lib e sctx rows p) \<and>
     (EvalDecimal a1 sctx row = Inr (Some s) \<and> EvalInt a0 sctx row = Inr None \<longrightarrow>
        avgPartial4Decimal_UpdatePartialResult lib e sctx (row # rows) p =
        avgPartial4Decimal_UpdatePartialResult lib e sctx rows p) \<and>
     (EvalDecimal a1 sctx row = Inr (Some s) \<and> EvalInt a0 sctx row = Inr (Some c) \<longrightarrow>
        avgPartial4Decimal_UpdatePartialResult lib e sctx (row # rows) p =
        (case DecimalAdd lib (sum_dec p) s of
           Inl err \<Rightarrow> (p, Some err)
         | Inr s' \<Rightarrow> avgPartial4Decimal_UpdatePartialResult lib e sctx rows
                      (p\<lparr>sum_dec := s', count_dec := count_dec p + c\<rparr>))) \<and>
     (list_all (\<lambda>r. EvalDecimal a1 sctx r = Inr None \<longrightarrow>
                  (\<exists>cv. EvalInt a0 sctx r = Inr cv)) rows \<longrightarrow>
        avgPartial4Decimal_UpdatePartialResult lib e sctx rows p =
        merge_update_decimal_as_specified lib e sctx rows p) \<and>
     (EvalReal a1 sctx row = Inr None \<longrightarrow>
        avgPartial4Float64_UpdatePartialResult fl e sctx (row # rows) pf =
        avgPartial4Float64_UpdatePartialResult fl e sctx rows pf) \<and>
     (EvalReal a1 sctx row = Inr (Some x) \<and> EvalInt a0 sctx row = Inr None \<longrightarrow>
        avgPartial4Float64_UpdatePartialResult fl e sctx (row # rows) pf =
        avgPartial4Float64_UpdatePartialResult fl e sctx rows pf) \<and>
     (EvalReal a1 sctx row = Inr (Some x) \<and> EvalInt a0 sctx row = Inr (Some c) \<longrightarrow>
        avgPartial4Float64_UpdatePartialResult fl e sctx (row # rows) pf =
        avgPartial4Float64_UpdatePartialResult fl e sctx rows
          (pf\<lparr>sum_f64 := float64_add fl (sum_f64 pf) x,
              count_f64 := count_f64 pf + c\<rparr>)) \<and>
     (list_all (\<lambda>r. EvalReal a1 sctx r = Inr None \<longrightarrow>
                  (\<exists>cv. EvalInt a0 sctx r = Inr cv)) rows \<longrightarrow>
        avgPartial4Float64_UpdatePartialResult fl e sctx rows pf =
        merge_update_float64_as_specified fl e sctx rows pf)"
proof (intro conjI impI)
  have a1: "args_at e (Suc 0) = Some a1"
    using assms(2) by simp
  show "avgPartial4Decimal_UpdatePartialResult lib e sctx (row # rows) p =
        avgPartial4Decimal_UpdatePartialResult lib e sctx rows p"
    if "EvalDecimal a1 sctx row = Inr None"
    using that by (simp add: assms(1) a1)
  show "avgPartial4Decimal_UpdatePartialResult lib e sctx (row # rows) p =
        avgPartial4Decimal_UpdatePartialResult lib e sctx rows p"
    if "EvalDecimal a1 sctx row = Inr (Some s) \<and> EvalInt a0 sctx row = Inr None"
    using that by (simp add: assms(1) a1)
  show "avgPartial4Decimal_UpdatePartialResult lib e sctx (row # rows) p =
        (case DecimalAdd lib (sum_dec p) s of
           Inl err \<Rightarrow> (p, Some err)
         | Inr s' \<Rightarrow> avgPartial4Decimal_UpdatePartialResult lib e sctx rows
                      (p\<lparr>sum_dec := s', count_dec := count_dec p + c\<rparr>))"
    if "EvalDecimal a1 sctx row = Inr (Some s) \<and> EvalInt a0 sctx row = Inr (Some c)"
    using that by (simp add: assms(1) a1)
  show "avgPartial4Decimal_UpdatePartialResult lib e sctx rows p =
        merge_update_decimal_as_specified lib e sctx rows p"
    if "list_all (\<lambda>r. EvalDecimal a1 sctx r = Inr None \<longrightarrow>
          (\<exists>cv. EvalInt a0 sctx r = Inr cv)) rows"
    using that by (rule partial_dec_as_specified [OF assms])
  show "avgPartial4Float64_UpdatePartialResult fl e sctx (row # rows) pf =
        avgPartial4Float64_UpdatePartialResult fl e sctx rows pf"
    if "EvalReal a1 sctx row = Inr None"
    using that by (simp add: assms(1) a1)
  show "avgPartial4Float64_UpdatePartialResult fl e sctx (row # rows) pf =
        avgPartial4Float64_UpdatePartialResult fl e sctx rows pf"
    if "EvalReal a1 sctx row = Inr (Some x) \<and> EvalInt a0 sctx row = Inr None"
    using that by (simp add: assms(1) a1)
  show "avgPartial4Float64_UpdatePartialResult fl e sctx (row # rows) pf =
        avgPartial4Float64_UpdatePartialResult fl e sctx rows
          (pf\<lparr>sum_f64 := float64_add fl (sum_f64 pf) x, count_f64 := count_f64 pf + c\<rparr>)"
    if "EvalReal a1 sctx row = Inr (Some x) \<and> EvalInt a0 sctx row = Inr (Some c)"
    using that by (simp add: assms(1) a1)
  show "avgPartial4Float64_UpdatePartialResult fl e sctx rows pf =
        merge_update_float64_as_specified fl e sctx rows pf"
    if "list_all (\<lambda>r. EvalReal a1 sctx r = Inr None \<longrightarrow>
          (\<exists>cv. EvalInt a0 sctx r = Inr cv)) rows"
    using that by (rule partial_f64_as_specified [OF assms])
qed

theorem merge_update_row_witness:
  "args_at avg_of_columns 0 = Some column \<and>
   args_at avg_of_columns 1 = Some column \<and>
   EvalDecimal column () null_sum_failing_count_row = Inr None \<and>
   EvalReal column () null_sum_failing_count_row = Inr None \<and>
   avgPartial4Decimal_UpdatePartialResult (spec_decimalLib 3 4) avg_of_columns ()
     [null_sum_failing_count_row] \<lparr>sum_dec = MkDecimal 20 0, count_dec = 3\<rparr> =
     (\<lparr>sum_dec = MkDecimal 20 0, count_dec = 3\<rparr>, None) \<and>
   avgPartial4Float64_UpdatePartialResult rat_float64Lib avg_of_columns ()
     [null_sum_failing_count_row] \<lparr>sum_f64 = 20, count_f64 = 3\<rparr> =
     (\<lparr>sum_f64 = 20, count_f64 = 3\<rparr>, None) \<and>
   EvalDecimal column () (decimal_row 5) = Inr (Some (MkDecimal 5 0)) \<and>
   EvalInt column () (decimal_row 5) = Inr None \<and>
   avgPartial4Decimal_UpdatePartialResult (spec_decimalLib 3 4) avg_of_columns ()
     [decimal_row 5] \<lparr>sum_dec = MkDecimal 20 0, count_dec = 3\<rparr> =
     (\<lparr>sum_dec = MkDecimal 20 0, count_dec = 3\<rparr>, None) \<and>
   EvalReal column () (real_row 5) = Inr (Some 5) \<and>
   EvalInt column () (real_row 5) = Inr None \<and>
   avgPartial4Float64_UpdatePartialResult rat_float64Lib avg_of_columns ()
     [real_row 5] \<lparr>sum_f64 = 20, count_f64 = 3\<rparr> =
     (\<lparr>sum_f64 = 20, count_f64 = 3\<rparr>, None) \<and>
   EvalDecimal column () (partial_row 10 2) = Inr (Some (MkDecimal 10 0)) \<and>
   EvalReal column () (partial_row 10 2) = Inr (Some 10) \<and>
   EvalInt column () (partial_row 10 2) = Inr (Some 2) \<and>
   avgPartial4Decimal_UpdatePartialResult (spec_decimalLib 3 4) avg_of_columns ()
     [partial_row 10 2] \<lparr>sum_dec = MkDecimal 20 0, count_dec = 3\<rparr> =
     (\<lparr>sum_dec = MkDecimal 30 0, count_dec = 5\<rparr>, None) \<and>
   avgPartial4Float64_UpdatePartialResult rat_float64Lib avg_of_columns ()
     [partial_row 10 2] \<lparr>sum_f64 = 20, count_f64 = 3\<rparr> =
     (\<lparr>sum_f64 = 30, count_f64 = 5\<rparr>, None) \<and>
   EvalDecimal column () null_row = Inr None \<and>
   EvalReal column () null_row = Inr None \<and>
   EvalInt column () null_row = Inr None \<and>
   avgPartial4Decimal_UpdatePartialResult (spec_decimalLib 3 4) avg_of_columns ()
     [null_row, partial_row 10 2] \<lparr>sum_dec = MkDecimal 20 0, count_dec = 3\<rparr> =
   merge_update_decimal_as_specified (spec_decimalLib 3 4) avg_of_columns ()
     [null_row, partial_row 10 2] \<lparr>sum_dec = MkDecimal 20 0, count_dec = 3\<rparr> \<and>
   avgPartial4Float64_UpdatePartialResult rat_float64Lib avg_of_columns ()
     [null_row, partial_row 10 2] \<lparr>sum_f64 = 20, count_f64 = 3\<rparr> =
   merge_update_float64_as_specified rat_float64Lib avg_of_columns ()
     [null_row, partial_row 10 2] \<lparr>sum_f64 = 20, count_f64 = 3\<rparr>"
proof -
  let ?lib = "spec_decimalLib 3 4"
  let ?p = "\<lparr>sum_dec = MkDecimal 20 0, count_dec = 3 :: int64\<rparr>"
  let ?pf = "\<lparr>sum_f64 = 20 :: rat, count_f64 = 3 :: int64\<rparr>"
  let ?both = "[null_row, partial_row 10 2]"
  have a0: "args_at avg_of_columns 0 = Some column"
    and a1: "args_at avg_of_columns 1 = Some column"
    by (simp_all add: args_at_def avg_of_columns_def)
  have z: "EvalDecimal column () null_sum_failing_count_row = Inr None"
    "EvalReal column () null_sum_failing_count_row = Inr None"
    and n: "EvalDecimal column () (decimal_row 5) = Inr (Some (MkDecimal 5 0))"
    "EvalInt column () (decimal_row 5) = Inr None"
    and m: "EvalReal column () (real_row 5) = Inr (Some 5)"
    "EvalInt column () (real_row 5) = Inr None"
    and v: "EvalDecimal column () (partial_row 10 2) = Inr (Some (MkDecimal 10 0))"
    "EvalReal column () (partial_row 10 2) = Inr (Some 10)"
    "EvalInt column () (partial_row 10 2) = Inr (Some 2)"
    and u: "EvalDecimal column () null_row = Inr None"
    "EvalReal column () null_row = Inr None"
    "EvalInt column () null_row = Inr None"
    by (simp_all add: column_def null_sum_failing_count_row_def decimal_row_def real_row_def
        partial_row_def null_row_def)
  have okd: "list_all (\<lambda>r. EvalDecimal column () r = Inr None \<longrightarrow>
      (\<exists>cv. EvalInt column () r = Inr cv)) ?both"
    and okf: "list_all (\<lambda>r. EvalReal column () r = Inr None \<longrightarrow>
      (\<exists>cv. EvalInt column () r = Inr cv)) ?both"
    by (simp_all add: u v)
  note first = merge_update_row [where e = avg_of_columns and ?a0.0 = column
      and ?a1.0 = column and sctx = "()" and row = null_sum_failing_count_row
      and rows = "[]" and lib = ?lib and p = ?p and s = "MkDecimal 5 0" and c = 0
      and fl = rat_float64Lib and pf = ?pf and x = 0, OF a0 a1]
  note skipd = merge_update_row [where e = avg_of_columns and ?a0.0 = column
      and ?a1.0 = column and sctx = "()" and row = "decimal_row 5"
      and rows = "[]" and lib = ?lib and p = ?p and s = "MkDecimal 5 0" and c = 0
      and fl = rat_float64Lib and pf = ?pf and x = 0, OF a0 a1]
  note skipf = merge_update_row [where e = avg_of_columns and ?a0.0 = column
      and ?a1.0 = column and sctx = "()" and row = "real_row 5"
      and rows = "[]" and lib = ?lib and p = ?p and s = "MkDecimal 5 0" and c = 0
      and fl = rat_float64Lib and pf = ?pf and x = 5, OF a0 a1]
  note add = merge_update_row [where e = avg_of_columns and ?a0.0 = column
      and ?a1.0 = column and sctx = "()" and row = "partial_row 10 2"
      and rows = "[]" and lib = ?lib and p = ?p and s = "MkDecimal 10 0" and c = 2
      and fl = rat_float64Lib and pf = ?pf and x = 10, OF a0 a1]
  note agree = merge_update_row [where e = avg_of_columns and ?a0.0 = column
      and ?a1.0 = column and sctx = "()" and row = null_row
      and rows = ?both and lib = ?lib and p = ?p and s = "MkDecimal 10 0" and c = 2
      and fl = rat_float64Lib and pf = ?pf and x = 10, OF a0 a1]
  note f1 = first [THEN conjunct1, THEN mp, OF z(1)]
  note f2 = first [THEN conjunct2, THEN conjunct2, THEN conjunct2, THEN conjunct2,
      THEN conjunct1, THEN mp, OF z(2)]
  note s1 = skipd [THEN conjunct2, THEN conjunct1, THEN mp, OF conjI [OF n(1) n(2)]]
  note s2 = skipf [THEN conjunct2, THEN conjunct2, THEN conjunct2, THEN conjunct2,
      THEN conjunct2, THEN conjunct1, THEN mp, OF conjI [OF m(1) m(2)]]
  note t1 = add [THEN conjunct2, THEN conjunct2, THEN conjunct1, THEN mp,
      OF conjI [OF v(1) v(3)]]
  note t2 = add [THEN conjunct2, THEN conjunct2, THEN conjunct2, THEN conjunct2,
      THEN conjunct2, THEN conjunct2, THEN conjunct1, THEN mp, OF conjI [OF v(2) v(3)]]
  note g1 = agree [THEN conjunct2, THEN conjunct2, THEN conjunct2, THEN conjunct1, THEN mp,
      OF okd]
  note g2 = agree [THEN conjunct2, THEN conjunct2, THEN conjunct2, THEN conjunct2,
      THEN conjunct2, THEN conjunct2, THEN conjunct2, THEN mp, OF okf]
  have c1: "avgPartial4Decimal_UpdatePartialResult ?lib avg_of_columns ()
      [null_sum_failing_count_row] ?p = (?p, None)"
    unfolding f1 by simp
  have c2: "avgPartial4Float64_UpdatePartialResult rat_float64Lib avg_of_columns ()
      [null_sum_failing_count_row] ?pf = (?pf, None)"
    unfolding f2 by simp
  have c3: "avgPartial4Decimal_UpdatePartialResult ?lib avg_of_columns () [decimal_row 5] ?p =
      (?p, None)"
    unfolding s1 by simp
  have c4: "avgPartial4Float64_UpdatePartialResult rat_float64Lib avg_of_columns ()
      [real_row 5] ?pf = (?pf, None)"
    unfolding s2 by simp
  have c5: "avgPartial4Decimal_UpdatePartialResult ?lib avg_of_columns () [partial_row 10 2] ?p =
      (\<lparr>sum_dec = MkDecimal 30 0, count_dec = 5\<rparr>, None)"
    unfolding t1 by (simp add: spec_decimalLib_def spec_DecimalAdd_def rescale_def)
  have c6: "avgPartial4Float64_UpdatePartialResult rat_float64Lib avg_of_columns ()
      [partial_row 10 2] ?pf = (\<lparr>sum_f64 = 30, count_f64 = 5\<rparr>, None)"
    unfolding t2 by (simp add: rat_float64Lib_def)
  show ?thesis
    by (intro conjI) (fact a0 a1 z n m v u c1 c2 c3 c4 c5 c6 g1 g2)+
qed

subsection \<open>Errors\<close>

text \<open>The row at which each update loop returns an error, and the state it returns.\<close>

lemma orig_dec_failing_row:
  assumes "args_at e 0 = Some a0"
    and "EvalDecimal a0 sctx row = Inl err \<or>
         (\<exists>v. EvalDecimal a0 sctx row = Inr (Some v) \<and> DecimalAdd lib (sum_dec p) v = Inl err)"
  shows "avgOriginal4Decimal_UpdatePartialResult lib e sctx (row # rest) p = (p, Some err)"
  using assms by auto

lemma partial_dec_failing_row:
  assumes "args_at e 0 = Some a0" and "args_at e 1 = Some a1"
    and "EvalDecimal a1 sctx row = Inl err \<or>
         (\<exists>s. EvalDecimal a1 sctx row = Inr (Some s) \<and>
            (EvalInt a0 sctx row = Inl err \<or>
             (\<exists>c. EvalInt a0 sctx row = Inr (Some c) \<and>
                  DecimalAdd lib (sum_dec p) s = Inl err)))"
  shows "avgPartial4Decimal_UpdatePartialResult lib e sctx (row # rest) p = (p, Some err)"
  using assms by auto

lemma distinct_dec_failing_row:
  assumes "args_at e 0 = Some a0"
    and "EvalDecimal a0 sctx row = Inl err \<or>
         (\<exists>v. EvalDecimal a0 sctx row = Inr (Some v) \<and> \<not> exist vs (valSet_dec q) v \<and>
              DecimalAdd lib (sum_dec q) v = Inl err)"
  shows "avgOriginal4DistinctDecimal_UpdatePartialResult lib vs e sctx (row # rest) q =
         (q, Some err)"
  using assms by auto

lemma orig_f64_failing_row:
  assumes "args_at e 0 = Some a0" and "EvalReal a0 sctx row = Inl err"
  shows "avgOriginal4Float64_UpdatePartialResult fl e sctx (row # rest) p = (p, Some err)"
  using assms by simp

lemma partial_f64_failing_row:
  assumes "args_at e 0 = Some a0" and "args_at e 1 = Some a1"
    and "EvalReal a1 sctx row = Inl err \<or>
         (\<exists>s. EvalReal a1 sctx row = Inr (Some s) \<and> EvalInt a0 sctx row = Inl err)"
  shows "avgPartial4Float64_UpdatePartialResult fl e sctx (row # rest) p = (p, Some err)"
  using assms by auto

lemma distinct_f64_failing_row:
  assumes "args_at e 0 = Some a0" and "EvalReal a0 sctx row = Inl err"
  shows "avgOriginal4DistinctFloat64_UpdatePartialResult fl vs e sctx (row # rest) q =
         (q, Some err)"
  using assms by simp

lemma after_prefix:
  assumes app: "\<And>xs ys p. upd (xs @ ys) p =
      (case upd xs p of (p1, None) \<Rightarrow> upd ys p1 | (p1, Some err) \<Rightarrow> (p1, Some err))"
    and "upd pre p = (p1, None)"
  shows "upd (pre @ rows) p = upd rows p1"
  using assms(2) by (simp add: app)

text \<open>
  Claim C6. Error propagation of update, all six variants (\<open>e\<close> is an original-phase
  aggregate, \<open>em\<close> a merge-phase one). Let a prefix of the batch be folded without
  error, leaving the state \<open>p1\<close>, and let the next row fail: a source expression that
  the loop evaluates on it returns an error (the sum or value expression, or the
  merge-phase count expression, which is evaluated on rows whose sum has a value), or
  the decimal addition fails. Then update returns that error at once, whatever rows
  follow, and the partial result is \<open>p1\<close>: the rows of the prefix stay applied.
\<close>

theorem update_error_propagation:
  assumes "args_at e 0 = Some a0"
    and "args_at em 0 = Some c0" and "args_at em 1 = Some c1"
  shows
    "(avgOriginal4Decimal_UpdatePartialResult lib e sctx pre p = (p1, None) \<and>
      (EvalDecimal a0 sctx row = Inl err \<or>
       (\<exists>v. EvalDecimal a0 sctx row = Inr (Some v) \<and>
            DecimalAdd lib (sum_dec p1) v = Inl err)) \<longrightarrow>
      avgOriginal4Decimal_UpdatePartialResult lib e sctx (pre @ row # rest) p =
        (p1, Some err)) \<and>
     (avgPartial4Decimal_UpdatePartialResult lib em sctx pre p = (p1, None) \<and>
      (EvalDecimal c1 sctx row = Inl err \<or>
       (\<exists>s. EvalDecimal c1 sctx row = Inr (Some s) \<and>
          (EvalInt c0 sctx row = Inl err \<or>
           (\<exists>c. EvalInt c0 sctx row = Inr (Some c) \<and>
                DecimalAdd lib (sum_dec p1) s = Inl err)))) \<longrightarrow>
      avgPartial4Decimal_UpdatePartialResult lib em sctx (pre @ row # rest) p =
        (p1, Some err)) \<and>
     (avgOriginal4DistinctDecimal_UpdatePartialResult lib vs e sctx pre q = (q1, None) \<and>
      (EvalDecimal a0 sctx row = Inl err \<or>
       (\<exists>v. EvalDecimal a0 sctx row = Inr (Some v) \<and> \<not> exist vs (valSet_dec q1) v \<and>
            DecimalAdd lib (sum_dec q1) v = Inl err)) \<longrightarrow>
      avgOriginal4DistinctDecimal_UpdatePartialResult lib vs e sctx (pre @ row # rest) q =
        (q1, Some err)) \<and>
     (avgOriginal4Float64_UpdatePartialResult fl e sctx pre pf = (pf1, None) \<and>
      EvalReal a0 sctx row = Inl err \<longrightarrow>
      avgOriginal4Float64_UpdatePartialResult fl e sctx (pre @ row # rest) pf =
        (pf1, Some err)) \<and>
     (avgPartial4Float64_UpdatePartialResult fl em sctx pre pf = (pf1, None) \<and>
      (EvalReal c1 sctx row = Inl err \<or>
       (\<exists>s. EvalReal c1 sctx row = Inr (Some s) \<and> EvalInt c0 sctx row = Inl err)) \<longrightarrow>
      avgPartial4Float64_UpdatePartialResult fl em sctx (pre @ row # rest) pf =
        (pf1, Some err)) \<and>
     (avgOriginal4DistinctFloat64_UpdatePartialResult fl vf e sctx pre qf = (qf1, None) \<and>
      EvalReal a0 sctx row = Inl err \<longrightarrow>
      avgOriginal4DistinctFloat64_UpdatePartialResult fl vf e sctx (pre @ row # rest) qf =
        (qf1, Some err))"
proof (intro conjI impI; elim conjE)
  show "avgOriginal4Decimal_UpdatePartialResult lib e sctx (pre @ row # rest) p =
        (p1, Some err)"
    if "avgOriginal4Decimal_UpdatePartialResult lib e sctx pre p = (p1, None)"
      and "EvalDecimal a0 sctx row = Inl err \<or>
           (\<exists>v. EvalDecimal a0 sctx row = Inr (Some v) \<and>
                DecimalAdd lib (sum_dec p1) v = Inl err)"
    using after_prefix [OF orig_dec_append that(1)]
      orig_dec_failing_row [OF assms(1) that(2)] by simp
  show "avgPartial4Decimal_UpdatePartialResult lib em sctx (pre @ row # rest) p =
        (p1, Some err)"
    if "avgPartial4Decimal_UpdatePartialResult lib em sctx pre p = (p1, None)"
      and "EvalDecimal c1 sctx row = Inl err \<or>
           (\<exists>s. EvalDecimal c1 sctx row = Inr (Some s) \<and>
              (EvalInt c0 sctx row = Inl err \<or>
               (\<exists>c. EvalInt c0 sctx row = Inr (Some c) \<and>
                    DecimalAdd lib (sum_dec p1) s = Inl err)))"
    using after_prefix [OF partial_dec_append that(1)]
      partial_dec_failing_row [OF assms(2,3) that(2)] by simp
  show "avgOriginal4DistinctDecimal_UpdatePartialResult lib vs e sctx (pre @ row # rest) q =
        (q1, Some err)"
    if "avgOriginal4DistinctDecimal_UpdatePartialResult lib vs e sctx pre q = (q1, None)"
      and "EvalDecimal a0 sctx row = Inl err \<or>
           (\<exists>v. EvalDecimal a0 sctx row = Inr (Some v) \<and> \<not> exist vs (valSet_dec q1) v \<and>
                DecimalAdd lib (sum_dec q1) v = Inl err)"
    using after_prefix [OF distinct_dec_append that(1)]
      distinct_dec_failing_row [OF assms(1) that(2)] by simp
  show "avgOriginal4Float64_UpdatePartialResult fl e sctx (pre @ row # rest) pf =
        (pf1, Some err)"
    if "avgOriginal4Float64_UpdatePartialResult fl e sctx pre pf = (pf1, None)"
      and "EvalReal a0 sctx row = Inl err"
    using after_prefix [OF orig_f64_append that(1)]
      orig_f64_failing_row [OF assms(1) that(2)] by simp
  show "avgPartial4Float64_UpdatePartialResult fl em sctx (pre @ row # rest) pf =
        (pf1, Some err)"
    if "avgPartial4Float64_UpdatePartialResult fl em sctx pre pf = (pf1, None)"
      and "EvalReal c1 sctx row = Inl err \<or>
           (\<exists>s. EvalReal c1 sctx row = Inr (Some s) \<and> EvalInt c0 sctx row = Inl err)"
    using after_prefix [OF partial_f64_append that(1)]
      partial_f64_failing_row [OF assms(2,3) that(2)] by simp
  show "avgOriginal4DistinctFloat64_UpdatePartialResult fl vf e sctx (pre @ row # rest) qf =
        (qf1, Some err)"
    if "avgOriginal4DistinctFloat64_UpdatePartialResult fl vf e sctx pre qf = (qf1, None)"
      and "EvalReal a0 sctx row = Inl err"
    using after_prefix [OF distinct_f64_append that(1)]
      distinct_f64_failing_row [OF assms(1) that(2)] by simp
qed


theorem update_error_propagation_witness:
  "args_at avg_of_columns 0 = Some column \<and>
   args_at avg_of_columns 1 = Some column \<and>
   avgOriginal4Decimal_UpdatePartialResult (spec_decimalLib 3 4) avg_of_columns ()
     [decimal_row 999] \<lparr>sum_dec = MkDecimal 0 0, count_dec = 0\<rparr> =
     (\<lparr>sum_dec = MkDecimal 999 0, count_dec = 1\<rparr>, None) \<and>
   EvalDecimal column () (decimal_row 1) = Inr (Some (MkDecimal 1 0)) \<and>
   DecimalAdd (spec_decimalLib 3 4) (MkDecimal 999 0) (MkDecimal 1 0) = Inl ArithmeticError \<and>
   avgOriginal4Decimal_UpdatePartialResult (spec_decimalLib 3 4) avg_of_columns ()
     ([decimal_row 999] @ decimal_row 1 # [decimal_row 5])
     \<lparr>sum_dec = MkDecimal 0 0, count_dec = 0\<rparr> =
     (\<lparr>sum_dec = MkDecimal 999 0, count_dec = 1\<rparr>, Some ArithmeticError) \<and>
   avgPartial4Decimal_UpdatePartialResult (spec_decimalLib 3 4) avg_of_columns ()
     [partial_row 10 2] \<lparr>sum_dec = MkDecimal 0 0, count_dec = 0\<rparr> =
     (\<lparr>sum_dec = MkDecimal 10 0, count_dec = 2\<rparr>, None) \<and>
   EvalDecimal column () (failing_count_row 20) = Inr (Some (MkDecimal 20 0)) \<and>
   EvalInt column () (failing_count_row 20) = Inl EvaluationError \<and>
   avgPartial4Decimal_UpdatePartialResult (spec_decimalLib 3 4) avg_of_columns ()
     ([partial_row 10 2] @ failing_count_row 20 # [partial_row 1 1])
     \<lparr>sum_dec = MkDecimal 0 0, count_dec = 0\<rparr> =
     (\<lparr>sum_dec = MkDecimal 10 0, count_dec = 2\<rparr>, Some EvaluationError) \<and>
   avgOriginal4DistinctDecimal_UpdatePartialResult (spec_decimalLib 3 4)
     (spec_valSetLib decimal_eq) avg_of_columns () [decimal_row 5]
     \<lparr>sum_dec = MkDecimal 0 0, count_dec = 0, valSet_dec = []\<rparr> =
     (\<lparr>sum_dec = MkDecimal 5 0, count_dec = 1, valSet_dec = [MkDecimal 5 0]\<rparr>, None) \<and>
   EvalDecimal column () failing_row = Inl EvaluationError \<and>
   avgOriginal4DistinctDecimal_UpdatePartialResult (spec_decimalLib 3 4)
     (spec_valSetLib decimal_eq) avg_of_columns () ([decimal_row 5] @ failing_row # [decimal_row 6])
     \<lparr>sum_dec = MkDecimal 0 0, count_dec = 0, valSet_dec = []\<rparr> =
     (\<lparr>sum_dec = MkDecimal 5 0, count_dec = 1, valSet_dec = [MkDecimal 5 0]\<rparr>,
      Some EvaluationError) \<and>
   avgOriginal4Float64_UpdatePartialResult rat_float64Lib avg_of_columns ()
     [real_row 1] \<lparr>sum_f64 = 0, count_f64 = 0\<rparr> = (\<lparr>sum_f64 = 1, count_f64 = 1\<rparr>, None) \<and>
   EvalReal column () failing_row = Inl EvaluationError \<and>
   avgOriginal4Float64_UpdatePartialResult rat_float64Lib avg_of_columns ()
     ([real_row 1] @ failing_row # [real_row 2]) \<lparr>sum_f64 = 0, count_f64 = 0\<rparr> =
     (\<lparr>sum_f64 = 1, count_f64 = 1\<rparr>, Some EvaluationError) \<and>
   avgPartial4Float64_UpdatePartialResult rat_float64Lib avg_of_columns ()
     [partial_row 10 2] \<lparr>sum_f64 = 0, count_f64 = 0\<rparr> =
     (\<lparr>sum_f64 = 10, count_f64 = 2\<rparr>, None) \<and>
   EvalReal column () (failing_count_row 20) = Inr (Some 20) \<and>
   avgPartial4Float64_UpdatePartialResult rat_float64Lib avg_of_columns ()
     ([partial_row 10 2] @ failing_count_row 20 # [partial_row 1 1])
     \<lparr>sum_f64 = 0, count_f64 = 0\<rparr> =
     (\<lparr>sum_f64 = 10, count_f64 = 2\<rparr>, Some EvaluationError) \<and>
   avgOriginal4DistinctFloat64_UpdatePartialResult rat_float64Lib (spec_valSetLib (=))
     avg_of_columns () [real_row 1] \<lparr>sum_f64 = 0, count_f64 = 0, valSet_f64 = []\<rparr> =
     (\<lparr>sum_f64 = 1, count_f64 = 1, valSet_f64 = [1]\<rparr>, None) \<and>
   avgOriginal4DistinctFloat64_UpdatePartialResult rat_float64Lib (spec_valSetLib (=))
     avg_of_columns () ([real_row 1] @ failing_row # [real_row 2])
     \<lparr>sum_f64 = 0, count_f64 = 0, valSet_f64 = []\<rparr> =
     (\<lparr>sum_f64 = 1, count_f64 = 1, valSet_f64 = [1]\<rparr>, Some EvaluationError)"
proof -
  let ?lib = "spec_decimalLib 3 4"
  let ?vs = "spec_valSetLib decimal_eq"
  let ?vf = "spec_valSetLib ((=) :: rat \<Rightarrow> rat \<Rightarrow> bool)"
  let ?p0 = "\<lparr>sum_dec = MkDecimal 0 0, count_dec = 0 :: int64\<rparr>"
  let ?q0 = "\<lparr>sum_dec = MkDecimal 0 0, count_dec = 0 :: int64,
              valSet_dec = [] :: MyDecimal list\<rparr>"
  let ?f0 = "\<lparr>sum_f64 = 0 :: rat, count_f64 = 0 :: int64\<rparr>"
  let ?g0 = "\<lparr>sum_f64 = 0 :: rat, count_f64 = 0 :: int64, valSet_f64 = [] :: rat list\<rparr>"
  note rows = column_def decimal_row_def real_row_def partial_row_def failing_row_def
    failing_count_row_def
  note libs = spec_decimalLib_def spec_DecimalAdd_def rescale_def rat_float64Lib_def
    spec_valSetLib_def
  have a0: "args_at avg_of_columns 0 = Some column"
    and a1: "args_at avg_of_columns 1 = Some column"
    by (simp_all add: args_at_def avg_of_columns_def)
  have ev: "EvalDecimal column () (decimal_row 1) = Inr (Some (MkDecimal 1 0))"
    "EvalDecimal column () (failing_count_row 20) = Inr (Some (MkDecimal 20 0))"
    "EvalInt column () (failing_count_row 20) = Inl EvaluationError"
    "EvalDecimal column () failing_row = Inl EvaluationError"
    "EvalReal column () failing_row = Inl EvaluationError"
    "EvalReal column () (failing_count_row 20) = Inr (Some 20)"
    by (simp_all add: rows)
  have ovf: "DecimalAdd ?lib (MkDecimal 999 0) (MkDecimal 1 0) = Inl ArithmeticError"
    by (simp add: libs)
  have pre1: "avgOriginal4Decimal_UpdatePartialResult ?lib avg_of_columns ()
      [decimal_row 999] ?p0 = (\<lparr>sum_dec = MkDecimal 999 0, count_dec = 1\<rparr>, None)"
    by (simp add: args_at_def avg_of_columns_def rows libs)
  have pre2: "avgPartial4Decimal_UpdatePartialResult ?lib avg_of_columns ()
      [partial_row 10 2] ?p0 = (\<lparr>sum_dec = MkDecimal 10 0, count_dec = 2\<rparr>, None)"
    by (simp add: args_at_def avg_of_columns_def rows libs)
  have pre3: "avgOriginal4DistinctDecimal_UpdatePartialResult ?lib ?vs avg_of_columns ()
      [decimal_row 5] ?q0 =
      (\<lparr>sum_dec = MkDecimal 5 0, count_dec = 1, valSet_dec = [MkDecimal 5 0]\<rparr>, None)"
    by (simp add: args_at_def avg_of_columns_def rows libs)
  have pre4: "avgOriginal4Float64_UpdatePartialResult rat_float64Lib avg_of_columns ()
      [real_row 1] ?f0 = (\<lparr>sum_f64 = 1, count_f64 = 1\<rparr>, None)"
    by (simp add: args_at_def avg_of_columns_def rows libs)
  have pre5: "avgPartial4Float64_UpdatePartialResult rat_float64Lib avg_of_columns ()
      [partial_row 10 2] ?f0 = (\<lparr>sum_f64 = 10, count_f64 = 2\<rparr>, None)"
    by (simp add: args_at_def avg_of_columns_def rows libs)
  have pre6: "avgOriginal4DistinctFloat64_UpdatePartialResult rat_float64Lib ?vf
      avg_of_columns () [real_row 1] ?g0 =
      (\<lparr>sum_f64 = 1, count_f64 = 1, valSet_f64 = [1]\<rparr>, None)"
    by (simp add: args_at_def avg_of_columns_def rows libs)
  note inst = update_error_propagation [OF a0 a0 a1, where sctx = "()"]
  have f1: "EvalDecimal column () (decimal_row 1) = Inl ArithmeticError \<or>
      (\<exists>v. EvalDecimal column () (decimal_row 1) = Inr (Some v) \<and>
           DecimalAdd ?lib (sum_dec \<lparr>sum_dec = MkDecimal 999 0, count_dec = 1 :: int64\<rparr>) v =
             Inl ArithmeticError)"
    using ev(1) ovf by simp
  have f2: "EvalDecimal column () (failing_count_row 20) = Inl EvaluationError \<or>
      (\<exists>s. EvalDecimal column () (failing_count_row 20) = Inr (Some s) \<and>
         (EvalInt column () (failing_count_row 20) = Inl EvaluationError \<or>
          (\<exists>c. EvalInt column () (failing_count_row 20) = Inr (Some c) \<and>
               DecimalAdd ?lib (sum_dec \<lparr>sum_dec = MkDecimal 10 0, count_dec = 2 :: int64\<rparr>) s =
                 Inl EvaluationError)))"
    using ev(2,3) by simp
  have f3: "EvalDecimal column () failing_row = Inl EvaluationError \<or>
      (\<exists>v. EvalDecimal column () failing_row = Inr (Some v) \<and>
           \<not> exist ?vs (valSet_dec \<lparr>sum_dec = MkDecimal 5 0, count_dec = 1 :: int64,
                valSet_dec = [MkDecimal 5 0]\<rparr>) v \<and>
           DecimalAdd ?lib (sum_dec \<lparr>sum_dec = MkDecimal 5 0, count_dec = 1 :: int64,
                valSet_dec = [MkDecimal 5 0]\<rparr>) v = Inl EvaluationError)"
    using ev(4) by simp
  have f5: "EvalReal column () (failing_count_row 20) = Inl EvaluationError \<or>
      (\<exists>s. EvalReal column () (failing_count_row 20) = Inr (Some s) \<and>
           EvalInt column () (failing_count_row 20) = Inl EvaluationError)"
    using ev(3,6) by simp
  note c1 = inst [THEN conjunct1, THEN mp, OF conjI [OF pre1 f1]]
  note c2 = inst [THEN conjunct2, THEN conjunct1, THEN mp, OF conjI [OF pre2 f2]]
  note c3 = inst [THEN conjunct2, THEN conjunct2, THEN conjunct1, THEN mp, OF conjI [OF pre3 f3]]
  note c4 = inst [THEN conjunct2, THEN conjunct2, THEN conjunct2, THEN conjunct1, THEN mp,
      OF conjI [OF pre4 ev(5)]]
  note c5 = inst [THEN conjunct2, THEN conjunct2, THEN conjunct2, THEN conjunct2,
      THEN conjunct1, THEN mp, OF conjI [OF pre5 f5]]
  note c6 = inst [THEN conjunct2, THEN conjunct2, THEN conjunct2, THEN conjunct2,
      THEN conjunct2, THEN mp, OF conjI [OF pre6 ev(5)]]
  show ?thesis
    by (intro conjI)
      (fact a0 a1 ev ovf pre1 pre2 pre3 pre4 pre5 pre6
        c1 [of "[decimal_row 5]"] c2 [of "[partial_row 1 1]"] c3 [of "[decimal_row 6]"]
        c4 [of "[real_row 2]"] c5 [of "[partial_row 1 1]"] c6 [of "[real_row 2]"])+
qed

text \<open>
  Claim C10. Per-row atomicity of the decimal updates (\<open>e\<close> is an original-phase
  aggregate, \<open>em\<close> a merge-phase one). When the decimal addition for a row fails, the
  update returns with the partial result exactly as it was before that row: the sum
  is unchanged (the addition wrote to \<open>newSum\<close>, which is stored only after success),
  the count is unchanged, and in the distinct variant the value set is unchanged, so
  the value is not inserted.
\<close>

theorem decimal_add_failure_leaves_state:
  assumes "args_at e 0 = Some a0"
    and "args_at em 0 = Some c0" and "args_at em 1 = Some c1"
  shows
    "(EvalDecimal a0 sctx row = Inr (Some v) \<and> DecimalAdd lib (sum_dec p) v = Inl err \<longrightarrow>
        avgOriginal4Decimal_UpdatePartialResult lib e sctx (row # rest) p = (p, Some err)) \<and>
     (EvalDecimal c1 sctx row = Inr (Some v) \<and> EvalInt c0 sctx row = Inr (Some c) \<and>
      DecimalAdd lib (sum_dec p) v = Inl err \<longrightarrow>
        avgPartial4Decimal_UpdatePartialResult lib em sctx (row # rest) p = (p, Some err)) \<and>
     (EvalDecimal a0 sctx row = Inr (Some v) \<and> \<not> exist vs (valSet_dec q) v \<and>
      DecimalAdd lib (sum_dec q) v = Inl err \<longrightarrow>
        avgOriginal4DistinctDecimal_UpdatePartialResult lib vs e sctx (row # rest) q =
          (q, Some err) \<and>
        sum_dec (fst (avgOriginal4DistinctDecimal_UpdatePartialResult lib vs e sctx
          (row # rest) q)) = sum_dec q \<and>
        count_dec (fst (avgOriginal4DistinctDecimal_UpdatePartialResult lib vs e sctx
          (row # rest) q)) = count_dec q \<and>
        valSet_dec (fst (avgOriginal4DistinctDecimal_UpdatePartialResult lib vs e sctx
          (row # rest) q)) = valSet_dec q)"
proof (intro conjI impI; elim conjE)
  show "avgOriginal4Decimal_UpdatePartialResult lib e sctx (row # rest) p = (p, Some err)"
    if "EvalDecimal a0 sctx row = Inr (Some v)" "DecimalAdd lib (sum_dec p) v = Inl err"
    using assms(1) that by simp
  show "avgPartial4Decimal_UpdatePartialResult lib em sctx (row # rest) p = (p, Some err)"
    if "EvalDecimal c1 sctx row = Inr (Some v)" "EvalInt c0 sctx row = Inr (Some c)"
      "DecimalAdd lib (sum_dec p) v = Inl err"
    using assms(2,3) that by simp
next
  assume h: "EvalDecimal a0 sctx row = Inr (Some v)" "\<not> exist vs (valSet_dec q) v"
    "DecimalAdd lib (sum_dec q) v = Inl err"
  have r: "avgOriginal4DistinctDecimal_UpdatePartialResult lib vs e sctx (row # rest) q =
      (q, Some err)"
    using assms(1) h by simp
  show "avgOriginal4DistinctDecimal_UpdatePartialResult lib vs e sctx (row # rest) q =
      (q, Some err)"
    by (fact r)
  show "sum_dec (fst (avgOriginal4DistinctDecimal_UpdatePartialResult lib vs e sctx
      (row # rest) q)) = sum_dec q"
    by (simp only: r fst_conv)
  show "count_dec (fst (avgOriginal4DistinctDecimal_UpdatePartialResult lib vs e sctx
      (row # rest) q)) = count_dec q"
    by (simp only: r fst_conv)
  show "valSet_dec (fst (avgOriginal4DistinctDecimal_UpdatePartialResult lib vs e sctx
      (row # rest) q)) = valSet_dec q"
    by (simp only: r fst_conv)
qed

theorem decimal_add_failure_leaves_state_witness:
  "args_at avg_of_columns 0 = Some column \<and>
   args_at avg_of_columns 1 = Some column \<and>
   EvalDecimal column () (partial_row 1 7) = Inr (Some (MkDecimal 1 0)) \<and>
   EvalInt column () (partial_row 1 7) = Inr (Some 7) \<and>
   DecimalAdd (spec_decimalLib 3 4) (MkDecimal 999 0) (MkDecimal 1 0) = Inl ArithmeticError \<and>
   \<not> exist (spec_valSetLib decimal_eq) [MkDecimal 999 0] (MkDecimal 1 0) \<and>
   avgOriginal4Decimal_UpdatePartialResult (spec_decimalLib 3 4) avg_of_columns ()
     [partial_row 1 7, partial_row 2 1] \<lparr>sum_dec = MkDecimal 999 0, count_dec = 1\<rparr> =
     (\<lparr>sum_dec = MkDecimal 999 0, count_dec = 1\<rparr>, Some ArithmeticError) \<and>
   avgPartial4Decimal_UpdatePartialResult (spec_decimalLib 3 4) avg_of_columns ()
     [partial_row 1 7, partial_row 2 1] \<lparr>sum_dec = MkDecimal 999 0, count_dec = 1\<rparr> =
     (\<lparr>sum_dec = MkDecimal 999 0, count_dec = 1\<rparr>, Some ArithmeticError) \<and>
   avgOriginal4DistinctDecimal_UpdatePartialResult (spec_decimalLib 3 4)
     (spec_valSetLib decimal_eq) avg_of_columns () [partial_row 1 7, partial_row 2 1]
     \<lparr>sum_dec = MkDecimal 999 0, count_dec = 1, valSet_dec = [MkDecimal 999 0]\<rparr> =
     (\<lparr>sum_dec = MkDecimal 999 0, count_dec = 1, valSet_dec = [MkDecimal 999 0]\<rparr>,
      Some ArithmeticError)"
proof -
  let ?lib = "spec_decimalLib 3 4"
  let ?vs = "spec_valSetLib decimal_eq"
  let ?p = "\<lparr>sum_dec = MkDecimal 999 0, count_dec = 1 :: int64\<rparr>"
  let ?q = "\<lparr>sum_dec = MkDecimal 999 0, count_dec = 1 :: int64,
             valSet_dec = [MkDecimal 999 0]\<rparr>"
  have a0: "args_at avg_of_columns 0 = Some column"
    and a1: "args_at avg_of_columns 1 = Some column"
    by (simp_all add: args_at_def avg_of_columns_def)
  have ev: "EvalDecimal column () (partial_row 1 7) = Inr (Some (MkDecimal 1 0))"
    "EvalInt column () (partial_row 1 7) = Inr (Some 7)"
    by (simp_all add: column_def partial_row_def)
  have ovf: "DecimalAdd ?lib (MkDecimal 999 0) (MkDecimal 1 0) = Inl ArithmeticError"
    by (simp add: spec_decimalLib_def spec_DecimalAdd_def rescale_def)
  have new: "\<not> exist ?vs [MkDecimal 999 0] (MkDecimal 1 0)"
    by (simp add: spec_valSetLib_def decimal_eq_def rescale_def)
  note inst = decimal_add_failure_leaves_state [OF a0 a0 a1, where sctx = "()"
      and row = "partial_row 1 7" and v = "MkDecimal 1 0" and lib = ?lib
      and err = ArithmeticError and rest = "[partial_row 2 1]" and c = 7 and vs = ?vs]
  have ovf_p: "DecimalAdd ?lib (sum_dec ?p) (MkDecimal 1 0) = Inl ArithmeticError"
    and ovf_q: "DecimalAdd ?lib (sum_dec ?q) (MkDecimal 1 0) = Inl ArithmeticError"
    and new_q: "\<not> exist ?vs (valSet_dec ?q) (MkDecimal 1 0)"
    using ovf new by simp_all
  note c1 = inst [THEN conjunct1, THEN mp, OF conjI [OF ev(1) ovf_p]]
  note c2 = inst [THEN conjunct2, THEN conjunct1, THEN mp,
      OF conjI [OF ev(1) conjI [OF ev(2) ovf_p]]]
  note c3 = inst [THEN conjunct2, THEN conjunct2, THEN mp,
      OF conjI [OF ev(1) conjI [OF new_q ovf_q]], THEN conjunct1]
  show ?thesis
    by (intro conjI) (fact a0 a1 ev ovf new c1 c2 c3)+
qed

subsection \<open>The float64 family has no arithmetic errors\<close>

lemma orig_f64_error_source:
  assumes "args_at e 0 = Some a0"
  shows "snd (avgOriginal4Float64_UpdatePartialResult fl e sctx rows p) = Some err \<Longrightarrow>
         \<exists>row\<in>set rows. EvalReal a0 sctx row = Inl err"
proof (induction rows arbitrary: p)
  case Nil
  then show ?case by simp
next
  case (Cons row rows)
  then show ?case
    using assms by (auto split: sum.splits option.splits)
qed

lemma partial_f64_error_source:
  assumes "args_at e 0 = Some a0" and "args_at e 1 = Some a1"
  shows "snd (avgPartial4Float64_UpdatePartialResult fl e sctx rows p) = Some err \<Longrightarrow>
         \<exists>row\<in>set rows. EvalReal a1 sctx row = Inl err \<or> EvalInt a0 sctx row = Inl err"
proof (induction rows arbitrary: p)
  case Nil
  then show ?case by simp
next
  case (Cons row rows)
  then show ?case
    using assms by (auto split: sum.splits option.splits)
qed

lemma distinct_f64_error_source:
  assumes "args_at e 0 = Some a0"
  shows "snd (avgOriginal4DistinctFloat64_UpdatePartialResult fl vs e sctx rows q) = Some err \<Longrightarrow>
         \<exists>row\<in>set rows. EvalReal a0 sctx row = Inl err"
proof (induction rows arbitrary: q)
  case Nil
  then show ?case by simp
next
  case (Cons row rows)
  then show ?case
    using assms by (auto split: sum.splits option.splits if_splits)
qed

lemma f64_final_no_error:
  "snd (baseAvgFloat64_AppendFinalResult2Chunk fl e sctx p chk) = None"
  "snd (avgOriginal4DistinctFloat64_AppendFinalResult2Chunk fl e sctx q chk) = None"
  by (simp_all add: baseAvgFloat64_AppendFinalResult2Chunk_def
      avgOriginal4DistinctFloat64_AppendFinalResult2Chunk_def)

text \<open>
  Claim C9. The float64 variants do not fail on arithmetic (\<open>e\<close> is an original-phase
  aggregate, \<open>em\<close> a merge-phase one). Finalize returns nil for every partial result.
  An error returned by update is the error that the evaluation of a source expression
  returned on one of the rows of the batch.
\<close>

theorem float64_errors_only_from_evaluation:
  assumes "args_at e 0 = Some a0"
    and "args_at em 0 = Some c0" and "args_at em 1 = Some c1"
  shows
    "snd (baseAvgFloat64_AppendFinalResult2Chunk fl e sctx pf chk) = None \<and>
     snd (avgOriginal4DistinctFloat64_AppendFinalResult2Chunk fl e sctx qf chk) = None \<and>
     (snd (avgOriginal4Float64_UpdatePartialResult fl e sctx rows pf) = Some err \<longrightarrow>
        (\<exists>row\<in>set rows. EvalReal a0 sctx row = Inl err)) \<and>
     (snd (avgPartial4Float64_UpdatePartialResult fl em sctx rows pf) = Some err \<longrightarrow>
        (\<exists>row\<in>set rows. EvalReal c1 sctx row = Inl err \<or> EvalInt c0 sctx row = Inl err)) \<and>
     (snd (avgOriginal4DistinctFloat64_UpdatePartialResult fl vf e sctx rows qf) = Some err \<longrightarrow>
        (\<exists>row\<in>set rows. EvalReal a0 sctx row = Inl err))"
  using orig_f64_error_source [OF assms(1)] partial_f64_error_source [OF assms(2,3)]
    distinct_f64_error_source [OF assms(1)]
  by (intro conjI impI) (simp_all only: f64_final_no_error)


theorem float64_errors_only_from_evaluation_witness:
  "args_at avg_of_columns 0 = Some column \<and>
   args_at avg_of_columns 1 = Some column \<and>
   snd (avgOriginal4Float64_UpdatePartialResult rat_float64Lib avg_of_columns ()
     [real_row 1, failing_row, real_row 2] \<lparr>sum_f64 = 0, count_f64 = 0\<rparr>) =
     Some EvaluationError \<and>
   (\<exists>row\<in>set [real_row 1, failing_row, real_row 2].
      EvalReal column () row = Inl EvaluationError) \<and>
   snd (avgPartial4Float64_UpdatePartialResult rat_float64Lib avg_of_columns ()
     [partial_row 10 2, failing_count_row 20] \<lparr>sum_f64 = 0, count_f64 = 0\<rparr>) =
     Some EvaluationError \<and>
   (\<exists>row\<in>set [partial_row 10 2, failing_count_row 20].
      EvalReal column () row = Inl EvaluationError \<or>
      EvalInt column () row = Inl EvaluationError) \<and>
   snd (avgOriginal4DistinctFloat64_UpdatePartialResult rat_float64Lib (spec_valSetLib (=))
     avg_of_columns () [real_row 1, failing_row, real_row 2]
     \<lparr>sum_f64 = 0, count_f64 = 0, valSet_f64 = []\<rparr>) = Some EvaluationError \<and>
   snd (baseAvgFloat64_AppendFinalResult2Chunk rat_float64Lib avg_of_columns ()
     \<lparr>sum_f64 = 3, count_f64 = 2\<rparr> (\<lambda>_. [] :: (MyDecimal, rat) cell list)) = None \<and>
   snd (avgOriginal4DistinctFloat64_AppendFinalResult2Chunk rat_float64Lib avg_of_columns ()
     \<lparr>sum_f64 = 3, count_f64 = 2, valSet_f64 = [1 :: rat, 2]\<rparr>
     (\<lambda>_. [] :: (MyDecimal, rat) cell list)) = None"
proof -
  let ?f0 = "\<lparr>sum_f64 = 0 :: rat, count_f64 = 0 :: int64\<rparr>"
  let ?g0 = "\<lparr>sum_f64 = 0 :: rat, count_f64 = 0 :: int64, valSet_f64 = [] :: rat list\<rparr>"
  let ?chk = "\<lambda>_ :: nat. [] :: (MyDecimal, rat) cell list"
  note defs = args_at_def avg_of_columns_def column_def real_row_def partial_row_def
    failing_row_def failing_count_row_def rat_float64Lib_def spec_valSetLib_def
  have a0: "args_at avg_of_columns 0 = Some column"
    and a1: "args_at avg_of_columns 1 = Some column"
    by (simp_all add: args_at_def avg_of_columns_def)
  have e1: "snd (avgOriginal4Float64_UpdatePartialResult rat_float64Lib avg_of_columns ()
      [real_row 1, failing_row, real_row 2] ?f0) = Some EvaluationError"
    by (simp add: defs)
  have e2: "snd (avgPartial4Float64_UpdatePartialResult rat_float64Lib avg_of_columns ()
      [partial_row 10 2, failing_count_row 20] ?f0) = Some EvaluationError"
    by (simp add: defs)
  have e3: "snd (avgOriginal4DistinctFloat64_UpdatePartialResult rat_float64Lib
      (spec_valSetLib (=)) avg_of_columns () [real_row 1, failing_row, real_row 2] ?g0) =
      Some EvaluationError"
    by (simp add: defs)
  note inst = float64_errors_only_from_evaluation [OF a0 a0 a1, where sctx = "()"
      and fl = rat_float64Lib and err = EvaluationError and chk = ?chk]
  note f1 = inst [where pf = "\<lparr>sum_f64 = 3, count_f64 = 2\<rparr>", THEN conjunct1]
  note f2 = inst [where qf = "\<lparr>sum_f64 = 3, count_f64 = 2, valSet_f64 = [1 :: rat, 2]\<rparr>",
      THEN conjunct2, THEN conjunct1]
  note c1 = inst [THEN conjunct2, THEN conjunct2, THEN conjunct1, THEN mp, OF e1]
  note c2 = inst [THEN conjunct2, THEN conjunct2, THEN conjunct2, THEN conjunct1, THEN mp, OF e2]
  show ?thesis
    by (intro conjI) (fact a0 a1 e1 e2 e3 c1 c2 f1 f2)+
qed

subsection \<open>Finalization\<close>

lemma decimal_final_zero:
  "count_dec p = 0 \<Longrightarrow>
     baseAvgDecimal_AppendFinalResult2Chunk lib e sctx p chk =
       (chk (ordinal e := chk (ordinal e) @ [CNull]), None)"
  "count_dec q = 0 \<Longrightarrow>
     avgOriginal4DistinctDecimal_AppendFinalResult2Chunk lib e sctx q chk =
       (chk (ordinal e := chk (ordinal e) @ [CNull]), None)"
  by (simp_all add: baseAvgDecimal_AppendFinalResult2Chunk_def
      avgOriginal4DistinctDecimal_AppendFinalResult2Chunk_def AppendNull_def)

lemma decimal_final_quotient:
  "count_dec p \<noteq> 0 \<Longrightarrow>
   DecimalDiv lib (sum_dec p) (NewDecFromInt lib (count_dec p)) (DivFracIncr lib) = Inr r \<Longrightarrow>
     baseAvgDecimal_AppendFinalResult2Chunk lib e sctx p chk =
       (chk (ordinal e := chk (ordinal e) @ [CDecimal r]), None)"
  "count_dec q \<noteq> 0 \<Longrightarrow>
   DecimalDiv lib (sum_dec q) (NewDecFromInt lib (count_dec q)) (DivFracIncr lib) = Inr r \<Longrightarrow>
     avgOriginal4DistinctDecimal_AppendFinalResult2Chunk lib e sctx q chk =
       (chk (ordinal e := chk (ordinal e) @ [CDecimal r]), None)"
  by (simp_all add: baseAvgDecimal_AppendFinalResult2Chunk_def
      avgOriginal4DistinctDecimal_AppendFinalResult2Chunk_def AppendMyDecimal_def)

lemma decimal_final_error:
  "count_dec p \<noteq> 0 \<Longrightarrow>
   DecimalDiv lib (sum_dec p) (NewDecFromInt lib (count_dec p)) (DivFracIncr lib) = Inl err \<Longrightarrow>
     baseAvgDecimal_AppendFinalResult2Chunk lib e sctx p chk = (chk, Some err)"
  "count_dec q \<noteq> 0 \<Longrightarrow>
   DecimalDiv lib (sum_dec q) (NewDecFromInt lib (count_dec q)) (DivFracIncr lib) = Inl err \<Longrightarrow>
     avgOriginal4DistinctDecimal_AppendFinalResult2Chunk lib e sctx q chk = (chk, Some err)"
  by (simp_all add: baseAvgDecimal_AppendFinalResult2Chunk_def
      avgOriginal4DistinctDecimal_AppendFinalResult2Chunk_def)

lemma f64_final_zero:
  "count_f64 pf = 0 \<Longrightarrow>
     baseAvgFloat64_AppendFinalResult2Chunk fl e sctx pf chk =
       (chk (ordinal e := chk (ordinal e) @ [CNull]), None)"
  "count_f64 qf = 0 \<Longrightarrow>
     avgOriginal4DistinctFloat64_AppendFinalResult2Chunk fl e sctx qf chk =
       (chk (ordinal e := chk (ordinal e) @ [CNull]), None)"
  by (simp_all add: baseAvgFloat64_AppendFinalResult2Chunk_def
      avgOriginal4DistinctFloat64_AppendFinalResult2Chunk_def AppendNull_def)

lemma f64_final_quotient:
  "count_f64 pf \<noteq> 0 \<Longrightarrow>
     baseAvgFloat64_AppendFinalResult2Chunk fl e sctx pf chk =
       (chk (ordinal e := chk (ordinal e) @
          [CFloat64 (float64_div fl (sum_f64 pf) (float64_of_int64 fl (count_f64 pf)))]), None)"
  "count_f64 qf \<noteq> 0 \<Longrightarrow>
     avgOriginal4DistinctFloat64_AppendFinalResult2Chunk fl e sctx qf chk =
       (chk (ordinal e := chk (ordinal e) @
          [CFloat64 (float64_div fl (sum_f64 qf) (float64_of_int64 fl (count_f64 qf)))]), None)"
  by (simp_all add: baseAvgFloat64_AppendFinalResult2Chunk_def
      avgOriginal4DistinctFloat64_AppendFinalResult2Chunk_def AppendFloat64_def)

text \<open>
  Claim C3. Finalize, all four functions. With count 0 it appends the null marker to
  the column at the aggregate's ordinal and returns nil. With a count other than 0 (in
  particular a positive one) it appends one cell to that column: in the float64 family
  the quotient of the sum by the converted count; in the decimal family the quotient
  that \<open>DecimalDiv\<close> returns for the sum, the count converted by \<open>NewDecFromInt\<close> and
  the increment \<open>DivFracIncr\<close>, and when \<open>DecimalDiv\<close> fails the chunk is unchanged and
  the error is returned. The resulting chunk is the given one with that one cell
  appended to that one column; the partial result is only read.
\<close>

theorem finalize_null_or_quotient:
  "(count_dec p = 0 \<longrightarrow>
      baseAvgDecimal_AppendFinalResult2Chunk lib e sctx p chk =
        (chk (ordinal e := chk (ordinal e) @ [CNull]), None)) \<and>
   (count_dec p \<noteq> 0 \<and>
    DecimalDiv lib (sum_dec p) (NewDecFromInt lib (count_dec p)) (DivFracIncr lib) = Inr r \<longrightarrow>
      baseAvgDecimal_AppendFinalResult2Chunk lib e sctx p chk =
        (chk (ordinal e := chk (ordinal e) @ [CDecimal r]), None)) \<and>
   (count_dec p \<noteq> 0 \<and>
    DecimalDiv lib (sum_dec p) (NewDecFromInt lib (count_dec p)) (DivFracIncr lib) = Inl err \<longrightarrow>
      baseAvgDecimal_AppendFinalResult2Chunk lib e sctx p chk = (chk, Some err)) \<and>
   (count_dec q = 0 \<longrightarrow>
      avgOriginal4DistinctDecimal_AppendFinalResult2Chunk lib e sctx q chk =
        (chk (ordinal e := chk (ordinal e) @ [CNull]), None)) \<and>
   (count_dec q \<noteq> 0 \<and>
    DecimalDiv lib (sum_dec q) (NewDecFromInt lib (count_dec q)) (DivFracIncr lib) = Inr r \<longrightarrow>
      avgOriginal4DistinctDecimal_AppendFinalResult2Chunk lib e sctx q chk =
        (chk (ordinal e := chk (ordinal e) @ [CDecimal r]), None)) \<and>
   (count_dec q \<noteq> 0 \<and>
    DecimalDiv lib (sum_dec q) (NewDecFromInt lib (count_dec q)) (DivFracIncr lib) = Inl err \<longrightarrow>
      avgOriginal4DistinctDecimal_AppendFinalResult2Chunk lib e sctx q chk = (chk, Some err)) \<and>
   (count_f64 pf = 0 \<longrightarrow>
      baseAvgFloat64_AppendFinalResult2Chunk fl e sctx pf chk =
        (chk (ordinal e := chk (ordinal e) @ [CNull]), None)) \<and>
   (count_f64 pf \<noteq> 0 \<longrightarrow>
      baseAvgFloat64_AppendFinalResult2Chunk fl e sctx pf chk =
        (chk (ordinal e := chk (ordinal e) @
           [CFloat64 (float64_div fl (sum_f64 pf) (float64_of_int64 fl (count_f64 pf)))]),
         None)) \<and>
   (count_f64 qf = 0 \<longrightarrow>
      avgOriginal4DistinctFloat64_AppendFinalResult2Chunk fl e sctx qf chk =
        (chk (ordinal e := chk (ordinal e) @ [CNull]), None)) \<and>
   (count_f64 qf \<noteq> 0 \<longrightarrow>
      avgOriginal4DistinctFloat64_AppendFinalResult2Chunk fl e sctx qf chk =
        (chk (ordinal e := chk (ordinal e) @
           [CFloat64 (float64_div fl (sum_f64 qf) (float64_of_int64 fl (count_f64 qf)))]),
         None))"
  by (intro conjI impI; (elim conjE)?)
    (erule decimal_final_zero decimal_final_quotient decimal_final_error
      f64_final_zero f64_final_quotient, assumption?)+


theorem finalize_null_or_quotient_witness:
  "count_dec \<lparr>sum_dec = MkDecimal 0 0, count_dec = 0\<rparr> = 0 \<and>
   baseAvgDecimal_AppendFinalResult2Chunk (spec_decimalLib 9 4) avg_of_columns ()
     \<lparr>sum_dec = MkDecimal 0 0, count_dec = 0\<rparr> (\<lambda>_. []) =
     ((\<lambda>_. []) (1 := [CNull :: (MyDecimal, rat) cell]), None) \<and>
   count_dec \<lparr>sum_dec = MkDecimal 12 0, count_dec = 3\<rparr> \<noteq> 0 \<and>
   DecimalDiv (spec_decimalLib 9 4) (MkDecimal 12 0) (NewDecFromInt (spec_decimalLib 9 4) 3)
     (DivFracIncr (spec_decimalLib 9 4)) = Inr (MkDecimal 40000 4) \<and>
   baseAvgDecimal_AppendFinalResult2Chunk (spec_decimalLib 9 4) avg_of_columns ()
     \<lparr>sum_dec = MkDecimal 12 0, count_dec = 3\<rparr> (\<lambda>_. []) =
     ((\<lambda>_. []) (1 := [CDecimal (MkDecimal 40000 4) :: (MyDecimal, rat) cell]), None) \<and>
   DecimalDiv (spec_decimalLib 3 4) (MkDecimal 12 0) (NewDecFromInt (spec_decimalLib 3 4) 3)
     (DivFracIncr (spec_decimalLib 3 4)) = Inl ArithmeticError \<and>
   baseAvgDecimal_AppendFinalResult2Chunk (spec_decimalLib 3 4) avg_of_columns ()
     \<lparr>sum_dec = MkDecimal 12 0, count_dec = 3\<rparr> (\<lambda>_. []) =
     ((\<lambda>_. [] :: (MyDecimal, rat) cell list), Some ArithmeticError) \<and>
   avgOriginal4DistinctDecimal_AppendFinalResult2Chunk (spec_decimalLib 9 4) avg_of_columns ()
     \<lparr>sum_dec = MkDecimal 0 0, count_dec = 0, valSet_dec = [] :: MyDecimal list\<rparr> (\<lambda>_. []) =
     ((\<lambda>_. []) (1 := [CNull :: (MyDecimal, rat) cell]), None) \<and>
   avgOriginal4DistinctDecimal_AppendFinalResult2Chunk (spec_decimalLib 9 4) avg_of_columns ()
     \<lparr>sum_dec = MkDecimal 12 0, count_dec = 3, valSet_dec = [MkDecimal 12 0]\<rparr> (\<lambda>_. []) =
     ((\<lambda>_. []) (1 := [CDecimal (MkDecimal 40000 4) :: (MyDecimal, rat) cell]), None) \<and>
   avgOriginal4DistinctDecimal_AppendFinalResult2Chunk (spec_decimalLib 3 4) avg_of_columns ()
     \<lparr>sum_dec = MkDecimal 12 0, count_dec = 3, valSet_dec = [MkDecimal 12 0]\<rparr> (\<lambda>_. []) =
     ((\<lambda>_. [] :: (MyDecimal, rat) cell list), Some ArithmeticError) \<and>
   baseAvgFloat64_AppendFinalResult2Chunk rat_float64Lib avg_of_columns ()
     \<lparr>sum_f64 = 0, count_f64 = 0\<rparr> (\<lambda>_. []) =
     ((\<lambda>_. []) (1 := [CNull :: (MyDecimal, rat) cell]), None) \<and>
   baseAvgFloat64_AppendFinalResult2Chunk rat_float64Lib avg_of_columns ()
     \<lparr>sum_f64 = 3, count_f64 = 2\<rparr> (\<lambda>_. []) =
     ((\<lambda>_. []) (1 := [CFloat64 (3 / 2) :: (MyDecimal, rat) cell]), None) \<and>
   avgOriginal4DistinctFloat64_AppendFinalResult2Chunk rat_float64Lib avg_of_columns ()
     \<lparr>sum_f64 = 0, count_f64 = 0, valSet_f64 = [] :: rat list\<rparr> (\<lambda>_. []) =
     ((\<lambda>_. []) (1 := [CNull :: (MyDecimal, rat) cell]), None) \<and>
   avgOriginal4DistinctFloat64_AppendFinalResult2Chunk rat_float64Lib avg_of_columns ()
     \<lparr>sum_f64 = 3, count_f64 = 2, valSet_f64 = [1 :: rat, 2]\<rparr> (\<lambda>_. []) =
     ((\<lambda>_. []) (1 := [CFloat64 (3 / 2) :: (MyDecimal, rat) cell]), None)"
proof -
  let ?chk = "\<lambda>_ :: nat. [] :: (MyDecimal, rat) cell list"
  let ?pz = "\<lparr>sum_dec = MkDecimal 0 0, count_dec = 0 :: int64\<rparr>"
  let ?p = "\<lparr>sum_dec = MkDecimal 12 0, count_dec = 3 :: int64\<rparr>"
  let ?qz = "\<lparr>sum_dec = MkDecimal 0 0, count_dec = 0 :: int64,
              valSet_dec = [] :: MyDecimal list\<rparr>"
  let ?q = "\<lparr>sum_dec = MkDecimal 12 0, count_dec = 3 :: int64, valSet_dec = [MkDecimal 12 0]\<rparr>"
  let ?fz = "\<lparr>sum_f64 = 0 :: rat, count_f64 = 0 :: int64\<rparr>"
  let ?f = "\<lparr>sum_f64 = 3 :: rat, count_f64 = 2 :: int64\<rparr>"
  let ?gz = "\<lparr>sum_f64 = 0 :: rat, count_f64 = 0 :: int64, valSet_f64 = [] :: rat list\<rparr>"
  let ?g = "\<lparr>sum_f64 = 3 :: rat, count_f64 = 2 :: int64, valSet_f64 = [1 :: rat, 2]\<rparr>"
  have z: "count_dec ?pz = 0" "count_dec ?qz = 0" "count_f64 ?fz = 0" "count_f64 ?gz = 0"
    and nz: "count_dec ?p \<noteq> 0" "count_dec ?q \<noteq> 0" "count_f64 ?f \<noteq> 0" "count_f64 ?g \<noteq> 0"
    by simp_all
  have d9: "DecimalDiv (spec_decimalLib 9 4) (MkDecimal 12 0)
      (NewDecFromInt (spec_decimalLib 9 4) 3) (DivFracIncr (spec_decimalLib 9 4)) =
      Inr (MkDecimal 40000 4)"
    and d3: "DecimalDiv (spec_decimalLib 3 4) (MkDecimal 12 0)
      (NewDecFromInt (spec_decimalLib 3 4) 3) (DivFracIncr (spec_decimalLib 3 4)) =
      Inl ArithmeticError"
    by (simp_all add: spec_decimalLib_def spec_DecimalDiv_def quot_trunc_def)
  have d9p: "DecimalDiv (spec_decimalLib 9 4) (sum_dec ?p)
      (NewDecFromInt (spec_decimalLib 9 4) (count_dec ?p)) (DivFracIncr (spec_decimalLib 9 4)) =
      Inr (MkDecimal 40000 4)"
    and d9q: "DecimalDiv (spec_decimalLib 9 4) (sum_dec ?q)
      (NewDecFromInt (spec_decimalLib 9 4) (count_dec ?q)) (DivFracIncr (spec_decimalLib 9 4)) =
      Inr (MkDecimal 40000 4)"
    using d9 by simp_all
  have d3p: "DecimalDiv (spec_decimalLib 3 4) (sum_dec ?p)
      (NewDecFromInt (spec_decimalLib 3 4) (count_dec ?p)) (DivFracIncr (spec_decimalLib 3 4)) =
      Inl ArithmeticError"
    and d3q: "DecimalDiv (spec_decimalLib 3 4) (sum_dec ?q)
      (NewDecFromInt (spec_decimalLib 3 4) (count_dec ?q)) (DivFracIncr (spec_decimalLib 3 4)) =
      Inl ArithmeticError"
    using d3 by simp_all
  have ord: "ordinal avg_of_columns = 1"
    by (simp add: avg_of_columns_def)
  have fd: "float64_div rat_float64Lib (sum_f64 ?f) (float64_of_int64 rat_float64Lib (count_f64 ?f)) = 3 / 2"
    "float64_div rat_float64Lib (sum_f64 ?g) (float64_of_int64 rat_float64Lib (count_f64 ?g)) = 3 / 2"
    by (simp_all add: rat_float64Lib_def)
  note inst = finalize_null_or_quotient [where e = avg_of_columns and sctx = "()"
      and chk = ?chk and fl = rat_float64Lib, unfolded ord append_Nil]
  note null = inst [where p = ?pz and q = ?qz and pf = ?fz and qf = ?gz]
  note quot = inst [where p = ?p and q = ?q and pf = ?f and qf = ?g]
  note c1 = null [THEN conjunct1, THEN mp, OF z(1)]
  note c2 = quot [THEN conjunct2, THEN conjunct1, THEN mp, OF conjI [OF nz(1) d9p]]
  note c3 = quot [THEN conjunct2, THEN conjunct2, THEN conjunct1, THEN mp,
      OF conjI [OF nz(1) d3p]]
  note c4 = null [THEN conjunct2, THEN conjunct2, THEN conjunct2, THEN conjunct1, THEN mp,
      OF z(2)]
  note c5 = quot [THEN conjunct2, THEN conjunct2, THEN conjunct2, THEN conjunct2,
      THEN conjunct1, THEN mp, OF conjI [OF nz(2) d9q]]
  note c6 = quot [THEN conjunct2, THEN conjunct2, THEN conjunct2, THEN conjunct2,
      THEN conjunct2, THEN conjunct1, THEN mp, OF conjI [OF nz(2) d3q]]
  note c7 = null [THEN conjunct2, THEN conjunct2, THEN conjunct2, THEN conjunct2,
      THEN conjunct2, THEN conjunct2, THEN conjunct1, THEN mp, OF z(3)]
  note c8 = quot [THEN conjunct2, THEN conjunct2, THEN conjunct2, THEN conjunct2,
      THEN conjunct2, THEN conjunct2, THEN conjunct2, THEN conjunct1, THEN mp, OF nz(3),
      unfolded fd]
  note c9 = null [THEN conjunct2, THEN conjunct2, THEN conjunct2, THEN conjunct2,
      THEN conjunct2, THEN conjunct2, THEN conjunct2, THEN conjunct2, THEN conjunct1,
      THEN mp, OF z(4)]
  note c10 = quot [THEN conjunct2, THEN conjunct2, THEN conjunct2, THEN conjunct2,
      THEN conjunct2, THEN conjunct2, THEN conjunct2, THEN conjunct2, THEN conjunct2,
      THEN mp, OF nz(4), unfolded fd]
  show ?thesis
    by (intro conjI) (fact z nz d9 d3 c1 c2 c3 c4 c5 c6 c7 c8 c9 c10)+
qed

text \<open>
  Claim C7. Decimal finalize division, both decimal finalize functions. With a count
  other than 0, the count is first converted by \<open>NewDecFromInt\<close> (the divisor denotes
  the count) and the sum is divided by it with \<open>DecimalDiv\<close> under the increment
  \<open>DivFracIncr\<close>; the quotient is what is written. For a decimal library that follows
  the fractional-increment convention, the written quotient has the fractional digits
  of the sum plus the increment.
\<close>

theorem decimal_finalize_division:
  "(count_dec p \<noteq> 0 \<and>
    DecimalDiv lib (sum_dec p) (NewDecFromInt lib (count_dec p)) (DivFracIncr lib) = Inr r \<longrightarrow>
      baseAvgDecimal_AppendFinalResult2Chunk lib e sctx p chk =
        (AppendMyDecimal chk (ordinal e) r, None) \<and>
      (exact_decimal lib dval \<longrightarrow>
         dval (NewDecFromInt lib (count_dec p)) = of_int (sint (count_dec p))) \<and>
      (frac_incr_division lib fdigits \<longrightarrow>
         fdigits r = fdigits (sum_dec p) + DivFracIncr lib)) \<and>
   (count_dec q \<noteq> 0 \<and>
    DecimalDiv lib (sum_dec q) (NewDecFromInt lib (count_dec q)) (DivFracIncr lib) = Inr r \<longrightarrow>
      avgOriginal4DistinctDecimal_AppendFinalResult2Chunk lib e sctx q chk =
        (AppendMyDecimal chk (ordinal e) r, None) \<and>
      (exact_decimal lib dval \<longrightarrow>
         dval (NewDecFromInt lib (count_dec q)) = of_int (sint (count_dec q))) \<and>
      (frac_incr_division lib fdigits \<longrightarrow>
         fdigits r = fdigits (sum_dec q) + DivFracIncr lib))"
proof -
  have conv: "dval (NewDecFromInt lib n) = of_int (sint n)" if "exact_decimal lib dval" for n
    using that by (simp add: exact_decimal_def)
  have digits: "fdigits r = fdigits s + DivFracIncr lib"
    if conv: "frac_incr_division lib fdigits"
      and "DecimalDiv lib s (NewDecFromInt lib n) (DivFracIncr lib) = Inr r" for s n
  proof -
    from that
    have "fdigits r = max (fdigits s) (fdigits (NewDecFromInt lib n)) + DivFracIncr lib"
      unfolding frac_incr_division_def by blast
    moreover from conv have "fdigits (NewDecFromInt lib n) = 0"
      unfolding frac_incr_division_def by blast
    ultimately show ?thesis by simp
  qed
  show ?thesis
    by (intro conjI impI; elim conjE)
      (simp_all add: conv digits baseAvgDecimal_AppendFinalResult2Chunk_def
        avgOriginal4DistinctDecimal_AppendFinalResult2Chunk_def)
qed

theorem decimal_finalize_division_witness:
  "exact_decimal (spec_decimalLib 9 4) dec_value \<and>
   frac_incr_division (spec_decimalLib 9 4) digitsFrac \<and>
   count_dec \<lparr>sum_dec = MkDecimal 75 1, count_dec = 2\<rparr> \<noteq> 0 \<and>
   DecimalDiv (spec_decimalLib 9 4) (MkDecimal 75 1) (NewDecFromInt (spec_decimalLib 9 4) 2)
     (DivFracIncr (spec_decimalLib 9 4)) = Inr (MkDecimal 375000 5) \<and>
   baseAvgDecimal_AppendFinalResult2Chunk (spec_decimalLib 9 4) avg_of_columns ()
     \<lparr>sum_dec = MkDecimal 75 1, count_dec = 2\<rparr> (\<lambda>_. []) =
     (AppendMyDecimal (\<lambda>_. [] :: (MyDecimal, rat) cell list) (ordinal avg_of_columns)
        (MkDecimal 375000 5), None) \<and>
   avgOriginal4DistinctDecimal_AppendFinalResult2Chunk (spec_decimalLib 9 4) avg_of_columns ()
     \<lparr>sum_dec = MkDecimal 75 1, count_dec = 2, valSet_dec = [MkDecimal 25 1, MkDecimal 5 0]\<rparr>
     (\<lambda>_. []) =
     (AppendMyDecimal (\<lambda>_. [] :: (MyDecimal, rat) cell list) (ordinal avg_of_columns)
        (MkDecimal 375000 5), None) \<and>
   dec_value (NewDecFromInt (spec_decimalLib 9 4) 2) = 2 \<and>
   digitsFrac (MkDecimal 375000 5) = digitsFrac (MkDecimal 75 1) + 4"
proof -
  let ?lib = "spec_decimalLib 9 4"
  let ?chk = "\<lambda>_ :: nat. [] :: (MyDecimal, rat) cell list"
  let ?p = "\<lparr>sum_dec = MkDecimal 75 1, count_dec = 2 :: int64\<rparr>"
  let ?q = "\<lparr>sum_dec = MkDecimal 75 1, count_dec = 2 :: int64,
             valSet_dec = [MkDecimal 25 1, MkDecimal 5 0]\<rparr>"
  have nz: "count_dec ?p \<noteq> 0" "count_dec ?q \<noteq> 0"
    by simp_all
  have d: "DecimalDiv ?lib (MkDecimal 75 1) (NewDecFromInt ?lib 2) (DivFracIncr ?lib) =
      Inr (MkDecimal 375000 5)"
    by (simp add: spec_decimalLib_def spec_DecimalDiv_def quot_trunc_def)
  have dp: "DecimalDiv ?lib (sum_dec ?p) (NewDecFromInt ?lib (count_dec ?p)) (DivFracIncr ?lib) =
      Inr (MkDecimal 375000 5)"
    and dq: "DecimalDiv ?lib (sum_dec ?q) (NewDecFromInt ?lib (count_dec ?q)) (DivFracIncr ?lib) =
      Inr (MkDecimal 375000 5)"
    using d by simp_all
  note inst = decimal_finalize_division [where lib = ?lib and dval = dec_value
      and fdigits = digitsFrac and e = avg_of_columns and sctx = "()" and chk = ?chk
      and p = ?p and q = ?q and r = "MkDecimal 375000 5"]
  note c1 = inst [THEN conjunct1, THEN mp, OF conjI [OF nz(1) dp]]
  note c2 = inst [THEN conjunct2, THEN mp, OF conjI [OF nz(2) dq]]
  have c3: "dec_value (NewDecFromInt ?lib 2) = 2"
    using c1 [THEN conjunct2, THEN conjunct1, THEN mp, OF spec_decimalLib_exact] by simp
  have c4: "digitsFrac (MkDecimal 375000 5) = digitsFrac (MkDecimal 75 1) + 4"
    using c1 [THEN conjunct2, THEN conjunct2, THEN mp, OF spec_decimalLib_frac_incr]
    by (simp add: spec_decimalLib_def)
  show ?thesis
    by (intro conjI)
      (fact spec_decimalLib_exact spec_decimalLib_frac_incr nz d
        c1 [THEN conjunct1] c2 [THEN conjunct1] c3 c4)+
qed

subsection \<open>Distinct variants\<close>












subsection \<open>The examples of the specification\<close>

text \<open>
  The four worked examples of the specification, run on the concrete decimal model with
  nine digits of precision and increment 4. Each lemma gives the partial result after
  the update and the cells of the output column after finalization.
\<close>

lemma example_original_2_4_6:
  "avgOriginal4Decimal_UpdatePartialResult (spec_decimalLib 9 4) avg_of_columns ()
     [decimal_row 2, decimal_row 4, decimal_row 6]
     (baseAvgDecimal_AllocPartialResult (spec_decimalLib 9 4)) =
     (\<lparr>sum_dec = MkDecimal 12 0, count_dec = 3\<rparr>, None)"
  "fst (baseAvgDecimal_AppendFinalResult2Chunk (spec_decimalLib 9 4) avg_of_columns ()
     \<lparr>sum_dec = MkDecimal 12 0, count_dec = 3\<rparr> (\<lambda>_. [])) (ordinal avg_of_columns) =
     [CDecimal (MkDecimal 40000 4)]"
  "dec_value (MkDecimal 40000 4) = 4"
  by (simp_all add: args_at_def avg_of_columns_def column_def decimal_row_def
      spec_decimalLib_def spec_DecimalAdd_def spec_DecimalDiv_def rescale_def quot_trunc_def
      baseAvgDecimal_AllocPartialResult_def baseAvgDecimal_AppendFinalResult2Chunk_def
      AppendMyDecimal_def dec_value_def)

lemma example_merge_10_2_20_3:
  "avgPartial4Decimal_UpdatePartialResult (spec_decimalLib 9 4) avg_of_columns ()
     [partial_row 10 2, partial_row 20 3]
     (baseAvgDecimal_AllocPartialResult (spec_decimalLib 9 4)) =
     (\<lparr>sum_dec = MkDecimal 30 0, count_dec = 5\<rparr>, None)"
  "fst (baseAvgDecimal_AppendFinalResult2Chunk (spec_decimalLib 9 4) avg_of_columns ()
     \<lparr>sum_dec = MkDecimal 30 0, count_dec = 5\<rparr> (\<lambda>_. [])) (ordinal avg_of_columns) =
     [CDecimal (MkDecimal 60000 4)]"
  "dec_value (MkDecimal 60000 4) = 6"
  by (simp_all add: args_at_def avg_of_columns_def column_def partial_row_def
      spec_decimalLib_def spec_DecimalAdd_def spec_DecimalDiv_def rescale_def quot_trunc_def
      baseAvgDecimal_AllocPartialResult_def baseAvgDecimal_AppendFinalResult2Chunk_def
      AppendMyDecimal_def dec_value_def)

lemma example_distinct_1_1_2_null:
  "avgOriginal4DistinctDecimal_UpdatePartialResult (spec_decimalLib 9 4)
     (spec_valSetLib decimal_eq) avg_of_columns ()
     [decimal_row 1, decimal_row 1, decimal_row 2, null_row]
     (avgOriginal4DistinctDecimal_AllocPartialResult (spec_decimalLib 9 4)
        (spec_valSetLib decimal_eq)) =
     (\<lparr>sum_dec = MkDecimal 3 0, count_dec = 2,
        valSet_dec = [MkDecimal 2 0, MkDecimal 1 0]\<rparr>, None)"
  "fst (avgOriginal4DistinctDecimal_AppendFinalResult2Chunk (spec_decimalLib 9 4)
     avg_of_columns ()
     \<lparr>sum_dec = MkDecimal 3 0, count_dec = 2, valSet_dec = [MkDecimal 2 0, MkDecimal 1 0]\<rparr>
     (\<lambda>_. [])) (ordinal avg_of_columns) = [CDecimal (MkDecimal 15000 4)]"
  "dec_value (MkDecimal 15000 4) = 3 / 2"
  by (simp_all add: args_at_def avg_of_columns_def column_def decimal_row_def null_row_def
      spec_decimalLib_def spec_DecimalAdd_def spec_DecimalDiv_def rescale_def quot_trunc_def
      spec_valSetLib_def decimal_eq_def
      avgOriginal4DistinctDecimal_AllocPartialResult_def
      avgOriginal4DistinctDecimal_AppendFinalResult2Chunk_def AppendMyDecimal_def dec_value_def)

lemma example_all_null:
  "avgOriginal4Decimal_UpdatePartialResult (spec_decimalLib 9 4) avg_of_columns ()
     (replicate n null_row) (baseAvgDecimal_AllocPartialResult (spec_decimalLib 9 4)) =
     (baseAvgDecimal_AllocPartialResult (spec_decimalLib 9 4), None)"
  "fst (baseAvgDecimal_AppendFinalResult2Chunk (spec_decimalLib 9 4) avg_of_columns ()
     (baseAvgDecimal_AllocPartialResult (spec_decimalLib 9 4)) (\<lambda>_. []))
     (ordinal avg_of_columns) = [CNull]"
proof -
  show "avgOriginal4Decimal_UpdatePartialResult (spec_decimalLib 9 4) avg_of_columns ()
     (replicate n null_row) (baseAvgDecimal_AllocPartialResult (spec_decimalLib 9 4)) =
     (baseAvgDecimal_AllocPartialResult (spec_decimalLib 9 4), None)"
    by (induction n) (simp_all add: args_at_def avg_of_columns_def column_def null_row_def)
  show "fst (baseAvgDecimal_AppendFinalResult2Chunk (spec_decimalLib 9 4) avg_of_columns ()
     (baseAvgDecimal_AllocPartialResult (spec_decimalLib 9 4)) (\<lambda>_. []))
     (ordinal avg_of_columns) = [CNull]"
    by (simp add: baseAvgDecimal_AppendFinalResult2Chunk_def AppendNull_def
        baseAvgDecimal_AllocPartialResult_def)
qed

end
